theory Spec2Isabelle
  imports Complex_Main "HOL-Library.Finite_Map"
begin

section \<open>Quarterly financial reconstruction (src/data/loader.py)\<close>

text \<open>
  A shallow embedding of \<^verbatim>\<open>QuarterlyDataCollector\<close>: the amount extractor
  (\<^verbatim>\<open>_extract_raw_amounts\<close>), the display-row builder
  (\<^verbatim>\<open>_build_display_row\<close>) and the collection routine
  (\<^verbatim>\<open>collect_quarterly_data\<close>) with its two local helpers
  \<^verbatim>\<open>add_dicts\<close> and \<^verbatim>\<open>sub_dict\<close>.

  Modelling decisions.
  \<^item> Python \<^verbatim>\<open>str\<close> is a \<open>string\<close> holding the UTF-8 bytes of the text. The
    operations used on text here (equality of dict keys, concatenation, removing
    \<^verbatim>\<open>','\<close>, testing for and stripping \<^verbatim>\<open>'('\<close> and \<^verbatim>\<open>')'\<close>) act on ASCII
    characters and give the same result on bytes as on code points.
  \<^item> Python \<^verbatim>\<open>float\<close> amounts are \<open>real\<close> numbers: finite values with exact
    arithmetic. Rounding, infinities and NaN are outside the model.
  \<^item> A Python \<^verbatim>\<open>dict\<close> is a finite map \<open>('k, 'v) fmap\<close>: \<^verbatim>\<open>d.get(k)\<close> is
    \<open>fmlookup d k\<close>, \<^verbatim>\<open>d[k] = v\<close> is \<open>fmupd k v d\<close>, \<^verbatim>\<open>k in d\<close> is
    \<open>k |\<in>| fmdom d\<close>, and the truth value of a dict is \<open>d \<noteq> fmempty\<close>.
  \<^item> Two library functions are arguments of the model, collected in the record
    \<open>pylib\<close>: the pandas matcher \<^verbatim>\<open>Series.str.contains(keyword, case=False, na=False)\<close>
    on one account name, and the built-in \<^verbatim>\<open>float\<close> on a string (\<open>None\<close> when it
    raises \<^verbatim>\<open>ValueError\<close>). Theorems stated for an arbitrary \<open>pylib\<close> hold for
    whatever these two functions compute. The instance \<open>ascii_lib\<close> is given for
    evaluation on concrete inputs.
  \<^item> The network calls of \<^verbatim>\<open>DartAPICollector\<close> are the fields of the record
    \<open>dart_collector\<close>: functions from the arguments of a call to its answer. Both
    methods catch every exception themselves (lines 72-74 and 89-90).
  \<^item> The progress messages (\<^verbatim>\<open>st.info\<close>, \<^verbatim>\<open>st.warning\<close>, \<^verbatim>\<open>st.error\<close>,
    \<^verbatim>\<open>st.caption\<close>) have no influence on the result and are left out.
\<close>

subsection \<open>String literals outside ASCII\<close>

text \<open>
  The Korean literals of the source, as UTF-8 byte strings. Code points of each:
  \<^item> \<open>key_revenue\<close>: U+B9E4 U+CD9C U+C561
  \<^item> \<open>key_cost_of_sales\<close>: U+B9E4 U+CD9C U+C6D0 U+AC00
  \<^item> \<open>key_gross_profit\<close>: U+B9E4 U+CD9C U+CD1D U+C774 U+C775
  \<^item> \<open>key_operating_profit\<close>: U+C601 U+C5C5 U+C774 U+C775
  \<^item> \<open>key_net_income\<close>: U+B2F9 U+AE30 U+C21C U+C774 U+C775
  \<^item> \<open>key_sga\<close>: U+D310 U+AD00 U+BE44
  \<^item> \<open>key_selling_expenses\<close>: U+D310 U+B9E4 U+BE44
  \<^item> \<open>key_admin_expenses\<close>: U+AD00 U+B9AC U+BE44
  \<^item> \<open>kw_selling_and_admin\<close>: U+D310 U+B9E4 U+BE44 U+C640 U+AD00 U+B9AC U+BE44
  \<^item> \<open>kw_total_profit\<close>: U+CD1D U+C774 U+C775
  \<^item> \<open>kw_operating_pl\<close>: U+C601 U+C5C5 U+C190 U+C775
  \<^item> \<open>kw_net_profit\<close>: U+C21C U+C774 U+C775
  \<^item> \<open>col_company\<close>: U+D68C U+C0AC
  \<^item> \<open>col_year\<close>: U+C5F0 U+B3C4
  \<^item> \<open>col_quarter\<close>: U+BD84 U+AE30
  \<^item> \<open>col_report\<close>: U+BCF4 U+ACE0 U+C11C U+AD6C U+BD84
  \<^item> \<open>col_revenue_tn\<close>: U+B9E4 U+CD9C U+C561 ( U+C870 U+C6D0 )
  \<^item> \<open>col_cost_of_sales_tn\<close>: U+B9E4 U+CD9C U+C6D0 U+AC00 ( U+C870 U+C6D0 )
  \<^item> \<open>col_gross_profit_tn\<close>: U+B9E4 U+CD9C U+CD1D U+C774 U+C775 ( U+C870 U+C6D0 )
  \<^item> \<open>col_operating_profit_100m\<close>: U+C601 U+C5C5 U+C774 U+C775 ( U+C5B5 U+C6D0 )
  \<^item> \<open>col_net_income_100m\<close>: U+B2F9 U+AE30 U+C21C U+C774 U+C775 ( U+C5B5 U+C6D0 )
  \<^item> \<open>col_sga_100m\<close>: U+D310 U+AD00 U+BE44 ( U+C5B5 U+C6D0 )
  \<^item> \<open>col_operating_margin\<close>: U+C601 U+C5C5 U+C774 U+C775 U+B960 ( % )
  \<^item> \<open>col_gross_margin\<close>: U+B9E4 U+CD9C U+CD1D U+C774 U+C775 U+B960 ( % )
  \<^item> \<open>col_net_margin\<close>: U+C21C U+C774 U+C775 U+B960 ( % )
  \<^item> \<open>col_cost_ratio\<close>: U+B9E4 U+CD9C U+C6D0 U+AC00 U+C728 ( % )
  \<^item> \<open>name_q1\<close>: 1 U+BD84 U+AE30 ( U+B2F9 U+AE30 )
  \<^item> \<open>name_q2\<close>: 2 U+BD84 U+AE30 ( U+B2F9 U+AE30 )
  \<^item> \<open>name_q3\<close>: 3 U+BD84 U+AE30 ( U+B2F9 U+AE30 )
  \<^item> \<open>name_q4\<close>: 4 U+BD84 U+AE30 ( U+B2F9 U+AE30 )
  \<^item> \<open>suffix_annual\<close>: <space> U+C5F0 U+AC04
  \<^item> \<open>name_annual\<close>: U+C5F0 U+AC04 ( U+C0AC U+C5C5 U+BCF4 U+ACE0 U+C11C )
\<close>

definition key_revenue :: string where
  "key_revenue =
    [CHR 0xEB, CHR 0xA7, CHR 0xA4, CHR 0xEC, CHR 0xB6, CHR 0x9C, CHR 0xEC, CHR 0x95,
     CHR 0xA1]"

definition key_cost_of_sales :: string where
  "key_cost_of_sales =
    [CHR 0xEB, CHR 0xA7, CHR 0xA4, CHR 0xEC, CHR 0xB6, CHR 0x9C, CHR 0xEC, CHR 0x9B,
     CHR 0x90, CHR 0xEA, CHR 0xB0, CHR 0x80]"

definition key_gross_profit :: string where
  "key_gross_profit =
    [CHR 0xEB, CHR 0xA7, CHR 0xA4, CHR 0xEC, CHR 0xB6, CHR 0x9C, CHR 0xEC, CHR 0xB4,
     CHR 0x9D, CHR 0xEC, CHR 0x9D, CHR 0xB4, CHR 0xEC, CHR 0x9D, CHR 0xB5]"

definition key_operating_profit :: string where
  "key_operating_profit =
    [CHR 0xEC, CHR 0x98, CHR 0x81, CHR 0xEC, CHR 0x97, CHR 0x85, CHR 0xEC, CHR 0x9D,
     CHR 0xB4, CHR 0xEC, CHR 0x9D, CHR 0xB5]"

definition key_net_income :: string where
  "key_net_income =
    [CHR 0xEB, CHR 0x8B, CHR 0xB9, CHR 0xEA, CHR 0xB8, CHR 0xB0, CHR 0xEC, CHR 0x88,
     CHR 0x9C, CHR 0xEC, CHR 0x9D, CHR 0xB4, CHR 0xEC, CHR 0x9D, CHR 0xB5]"

definition key_sga :: string where
  "key_sga =
    [CHR 0xED, CHR 0x8C, CHR 0x90, CHR 0xEA, CHR 0xB4, CHR 0x80, CHR 0xEB, CHR 0xB9,
     CHR 0x84]"

definition key_selling_expenses :: string where
  "key_selling_expenses =
    [CHR 0xED, CHR 0x8C, CHR 0x90, CHR 0xEB, CHR 0xA7, CHR 0xA4, CHR 0xEB, CHR 0xB9,
     CHR 0x84]"

definition key_admin_expenses :: string where
  "key_admin_expenses =
    [CHR 0xEA, CHR 0xB4, CHR 0x80, CHR 0xEB, CHR 0xA6, CHR 0xAC, CHR 0xEB, CHR 0xB9,
     CHR 0x84]"

definition kw_selling_and_admin :: string where
  "kw_selling_and_admin =
    [CHR 0xED, CHR 0x8C, CHR 0x90, CHR 0xEB, CHR 0xA7, CHR 0xA4, CHR 0xEB, CHR 0xB9,
     CHR 0x84, CHR 0xEC, CHR 0x99, CHR 0x80, CHR 0xEA, CHR 0xB4, CHR 0x80, CHR 0xEB,
     CHR 0xA6, CHR 0xAC, CHR 0xEB, CHR 0xB9, CHR 0x84]"

definition kw_total_profit :: string where
  "kw_total_profit =
    [CHR 0xEC, CHR 0xB4, CHR 0x9D, CHR 0xEC, CHR 0x9D, CHR 0xB4, CHR 0xEC, CHR 0x9D,
     CHR 0xB5]"

definition kw_operating_pl :: string where
  "kw_operating_pl =
    [CHR 0xEC, CHR 0x98, CHR 0x81, CHR 0xEC, CHR 0x97, CHR 0x85, CHR 0xEC, CHR 0x86,
     CHR 0x90, CHR 0xEC, CHR 0x9D, CHR 0xB5]"

definition kw_net_profit :: string where
  "kw_net_profit =
    [CHR 0xEC, CHR 0x88, CHR 0x9C, CHR 0xEC, CHR 0x9D, CHR 0xB4, CHR 0xEC, CHR 0x9D,
     CHR 0xB5]"

definition col_company :: string where
  "col_company =
    [CHR 0xED, CHR 0x9A, CHR 0x8C, CHR 0xEC, CHR 0x82, CHR 0xAC]"

definition col_year :: string where
  "col_year =
    [CHR 0xEC, CHR 0x97, CHR 0xB0, CHR 0xEB, CHR 0x8F, CHR 0x84]"

definition col_quarter :: string where
  "col_quarter =
    [CHR 0xEB, CHR 0xB6, CHR 0x84, CHR 0xEA, CHR 0xB8, CHR 0xB0]"

definition col_report :: string where
  "col_report =
    [CHR 0xEB, CHR 0xB3, CHR 0xB4, CHR 0xEA, CHR 0xB3, CHR 0xA0, CHR 0xEC, CHR 0x84,
     CHR 0x9C, CHR 0xEA, CHR 0xB5, CHR 0xAC, CHR 0xEB, CHR 0xB6, CHR 0x84]"

definition col_revenue_tn :: string where
  "col_revenue_tn =
    [CHR 0xEB, CHR 0xA7, CHR 0xA4, CHR 0xEC, CHR 0xB6, CHR 0x9C, CHR 0xEC, CHR 0x95,
     CHR 0xA1, CHR 0x28, CHR 0xEC, CHR 0xA1, CHR 0xB0, CHR 0xEC, CHR 0x9B, CHR 0x90,
     CHR 0x29]"

definition col_cost_of_sales_tn :: string where
  "col_cost_of_sales_tn =
    [CHR 0xEB, CHR 0xA7, CHR 0xA4, CHR 0xEC, CHR 0xB6, CHR 0x9C, CHR 0xEC, CHR 0x9B,
     CHR 0x90, CHR 0xEA, CHR 0xB0, CHR 0x80, CHR 0x28, CHR 0xEC, CHR 0xA1, CHR 0xB0,
     CHR 0xEC, CHR 0x9B, CHR 0x90, CHR 0x29]"

definition col_gross_profit_tn :: string where
  "col_gross_profit_tn =
    [CHR 0xEB, CHR 0xA7, CHR 0xA4, CHR 0xEC, CHR 0xB6, CHR 0x9C, CHR 0xEC, CHR 0xB4,
     CHR 0x9D, CHR 0xEC, CHR 0x9D, CHR 0xB4, CHR 0xEC, CHR 0x9D, CHR 0xB5, CHR 0x28,
     CHR 0xEC, CHR 0xA1, CHR 0xB0, CHR 0xEC, CHR 0x9B, CHR 0x90, CHR 0x29]"

definition col_operating_profit_100m :: string where
  "col_operating_profit_100m =
    [CHR 0xEC, CHR 0x98, CHR 0x81, CHR 0xEC, CHR 0x97, CHR 0x85, CHR 0xEC, CHR 0x9D,
     CHR 0xB4, CHR 0xEC, CHR 0x9D, CHR 0xB5, CHR 0x28, CHR 0xEC, CHR 0x96, CHR 0xB5,
     CHR 0xEC, CHR 0x9B, CHR 0x90, CHR 0x29]"

definition col_net_income_100m :: string where
  "col_net_income_100m =
    [CHR 0xEB, CHR 0x8B, CHR 0xB9, CHR 0xEA, CHR 0xB8, CHR 0xB0, CHR 0xEC, CHR 0x88,
     CHR 0x9C, CHR 0xEC, CHR 0x9D, CHR 0xB4, CHR 0xEC, CHR 0x9D, CHR 0xB5, CHR 0x28,
     CHR 0xEC, CHR 0x96, CHR 0xB5, CHR 0xEC, CHR 0x9B, CHR 0x90, CHR 0x29]"

definition col_sga_100m :: string where
  "col_sga_100m =
    [CHR 0xED, CHR 0x8C, CHR 0x90, CHR 0xEA, CHR 0xB4, CHR 0x80, CHR 0xEB, CHR 0xB9,
     CHR 0x84, CHR 0x28, CHR 0xEC, CHR 0x96, CHR 0xB5, CHR 0xEC, CHR 0x9B, CHR 0x90,
     CHR 0x29]"

definition col_operating_margin :: string where
  "col_operating_margin =
    [CHR 0xEC, CHR 0x98, CHR 0x81, CHR 0xEC, CHR 0x97, CHR 0x85, CHR 0xEC, CHR 0x9D,
     CHR 0xB4, CHR 0xEC, CHR 0x9D, CHR 0xB5, CHR 0xEB, CHR 0xA5, CHR 0xA0, CHR 0x28,
     CHR 0x25, CHR 0x29]"

definition col_gross_margin :: string where
  "col_gross_margin =
    [CHR 0xEB, CHR 0xA7, CHR 0xA4, CHR 0xEC, CHR 0xB6, CHR 0x9C, CHR 0xEC, CHR 0xB4,
     CHR 0x9D, CHR 0xEC, CHR 0x9D, CHR 0xB4, CHR 0xEC, CHR 0x9D, CHR 0xB5, CHR 0xEB,
     CHR 0xA5, CHR 0xA0, CHR 0x28, CHR 0x25, CHR 0x29]"

definition col_net_margin :: string where
  "col_net_margin =
    [CHR 0xEC, CHR 0x88, CHR 0x9C, CHR 0xEC, CHR 0x9D, CHR 0xB4, CHR 0xEC, CHR 0x9D,
     CHR 0xB5, CHR 0xEB, CHR 0xA5, CHR 0xA0, CHR 0x28, CHR 0x25, CHR 0x29]"

definition col_cost_ratio :: string where
  "col_cost_ratio =
    [CHR 0xEB, CHR 0xA7, CHR 0xA4, CHR 0xEC, CHR 0xB6, CHR 0x9C, CHR 0xEC, CHR 0x9B,
     CHR 0x90, CHR 0xEA, CHR 0xB0, CHR 0x80, CHR 0xEC, CHR 0x9C, CHR 0xA8, CHR 0x28,
     CHR 0x25, CHR 0x29]"

definition name_q1 :: string where
  "name_q1 =
    [CHR 0x31, CHR 0xEB, CHR 0xB6, CHR 0x84, CHR 0xEA, CHR 0xB8, CHR 0xB0, CHR 0x28,
     CHR 0xEB, CHR 0x8B, CHR 0xB9, CHR 0xEA, CHR 0xB8, CHR 0xB0, CHR 0x29]"

definition name_q2 :: string where
  "name_q2 =
    [CHR 0x32, CHR 0xEB, CHR 0xB6, CHR 0x84, CHR 0xEA, CHR 0xB8, CHR 0xB0, CHR 0x28,
     CHR 0xEB, CHR 0x8B, CHR 0xB9, CHR 0xEA, CHR 0xB8, CHR 0xB0, CHR 0x29]"

definition name_q3 :: string where
  "name_q3 =
    [CHR 0x33, CHR 0xEB, CHR 0xB6, CHR 0x84, CHR 0xEA, CHR 0xB8, CHR 0xB0, CHR 0x28,
     CHR 0xEB, CHR 0x8B, CHR 0xB9, CHR 0xEA, CHR 0xB8, CHR 0xB0, CHR 0x29]"

definition name_q4 :: string where
  "name_q4 =
    [CHR 0x34, CHR 0xEB, CHR 0xB6, CHR 0x84, CHR 0xEA, CHR 0xB8, CHR 0xB0, CHR 0x28,
     CHR 0xEB, CHR 0x8B, CHR 0xB9, CHR 0xEA, CHR 0xB8, CHR 0xB0, CHR 0x29]"

definition suffix_annual :: string where
  "suffix_annual =
    [CHR 0x20, CHR 0xEC, CHR 0x97, CHR 0xB0, CHR 0xEA, CHR 0xB0, CHR 0x84]"

definition name_annual :: string where
  "name_annual =
    [CHR 0xEC, CHR 0x97, CHR 0xB0, CHR 0xEA, CHR 0xB0, CHR 0x84, CHR 0x28, CHR 0xEC,
     CHR 0x82, CHR 0xAC, CHR 0xEC, CHR 0x97, CHR 0x85, CHR 0xEB, CHR 0xB3, CHR 0xB4,
     CHR 0xEA, CHR 0xB3, CHR 0xA0, CHR 0xEC, CHR 0x84, CHR 0x9C, CHR 0x29]"

subsection \<open>Text operations\<close>

text \<open>\<^verbatim>\<open>s.replace(',', '')\<close>\<close>

definition remove_commas :: "string \<Rightarrow> string" where
  "remove_commas s = filter (\<lambda>c. c \<noteq> CHR '','') s"

text \<open>\<^verbatim>\<open>s.strip(chars)\<close>: drop leading and trailing characters that occur in \<open>chars\<close>.\<close>

definition strip_chars :: "string \<Rightarrow> string \<Rightarrow> string" where
  "strip_chars chars s =
     rev (dropWhile (\<lambda>c. c \<in> set chars) (rev (dropWhile (\<lambda>c. c \<in> set chars) s)))"

text \<open>
  \<^verbatim>\<open>s.strip()\<close>: drop leading and trailing white space. The ASCII white space of
  \<^verbatim>\<open>str.isspace\<close> is the range 9..13 (tab, line feed, vertical tab, form feed,
  carriage return), 28..31 (the separators) and 32 (space). White space outside ASCII
  (such as the no-break space) is not modelled.
\<close>

definition is_space :: "char \<Rightarrow> bool" where
  "is_space c =
     (c \<in> set [CHR 0x09, CHR 0x0A, CHR 0x0B, CHR 0x0C, CHR 0x0D,
                CHR 0x1C, CHR 0x1D, CHR 0x1E, CHR 0x1F, CHR 0x20])"

definition py_strip :: "string \<Rightarrow> string" where
  "py_strip s = rev (dropWhile is_space (rev (dropWhile is_space s)))"

subsection \<open>The library functions\<close>

record pylib =
  str_contains :: "string \<Rightarrow> string \<Rightarrow> bool"
  to_float :: "string \<Rightarrow> real option"

text \<open>
  An instance for evaluation. \<open>icontains keyword name\<close> is the case-insensitive
  substring test on ASCII letters (the keywords of the source contain no regular
  expression operator, so the pattern is a literal).
\<close>

definition lower_char :: "char \<Rightarrow> char" where
  "lower_char c =
     (case map_of (zip ''ABCDEFGHIJKLMNOPQRSTUVWXYZ'' ''abcdefghijklmnopqrstuvwxyz'') c of
        None \<Rightarrow> c
      | Some l \<Rightarrow> l)"

fun is_prefix :: "string \<Rightarrow> string \<Rightarrow> bool" where
  "is_prefix [] ys = True"
| "is_prefix (x # xs) [] = False"
| "is_prefix (x # xs) (y # ys) = (x = y \<and> is_prefix xs ys)"

fun has_substring :: "string \<Rightarrow> string \<Rightarrow> bool" where
  "has_substring xs [] = (xs = [])"
| "has_substring xs (y # ys) = (is_prefix xs (y # ys) \<or> has_substring xs ys)"

definition icontains :: "string \<Rightarrow> string \<Rightarrow> bool" where
  "icontains keyword name = has_substring (map lower_char keyword) (map lower_char name)"

text \<open>
  \<open>float_decimal\<close> is \<^verbatim>\<open>float\<close> on plain decimal numerals: optional surrounding
  white space, an optional sign, then digits with an optional fraction
  (\<^verbatim>\<open>"12"\<close>, \<^verbatim>\<open>"12.5"\<close>, \<^verbatim>\<open>"12."\<close>, \<^verbatim>\<open>".5"\<close>). The value is the exact decimal value.
  The other spellings \<^verbatim>\<open>float\<close> accepts (exponents, digit-group underscores,
  \<^verbatim>\<open>inf\<close>, \<^verbatim>\<open>nan\<close>) are not part of this instance.
\<close>

definition is_digit :: "char \<Rightarrow> bool" where
  "is_digit c = (c \<in> set ''0123456789'')"

definition digit_val :: "char \<Rightarrow> nat" where
  "digit_val c = (case map_of (zip ''0123456789'' [0, 1, 2, 3, 4, 5, 6, 7, 8, 9]) c of
                    None \<Rightarrow> 0
                  | Some d \<Rightarrow> d)"

definition digits_val :: "string \<Rightarrow> nat" where
  "digits_val s = foldl (\<lambda>acc c. 10 * acc + digit_val c) 0 s"

definition unsigned_decimal :: "string \<Rightarrow> real option" where
  "unsigned_decimal s =
     (let ip = takeWhile is_digit s; rest = dropWhile is_digit s in
      case rest of
        [] \<Rightarrow> (if ip = [] then None else Some (real (digits_val ip)))
      | c # fp \<Rightarrow>
          (if c = CHR ''.'' \<and> list_all is_digit fp \<and> (ip \<noteq> [] \<or> fp \<noteq> [])
           then Some (real (digits_val ip) + real (digits_val fp) / 10 ^ length fp)
           else None))"

definition float_decimal :: "string \<Rightarrow> real option" where
  "float_decimal s =
     (case py_strip s of
        [] \<Rightarrow> None
      | c # cs \<Rightarrow>
          (if c = CHR ''-'' then map_option uminus (unsigned_decimal cs)
           else if c = CHR ''+'' then unsigned_decimal cs
           else unsigned_decimal (c # cs)))"

definition ascii_lib :: pylib where
  "ascii_lib = \<lparr>str_contains = icontains, to_float = float_decimal\<rparr>"

subsection \<open>The filing record\<close>

text \<open>
  A \<^verbatim>\<open>DataFrame\<close> built from the JSON list of the filings API: named columns and
  rows; a cell is a string, or missing (\<^verbatim>\<open>None\<close> or NaN). \<open>py_str\<close> is
  \<^verbatim>\<open>str(raw)\<close> on a cell.
\<close>

datatype cell = Text string | PyNone | NaN

fun py_str :: "cell \<Rightarrow> string" where
  "py_str (Text s) = s"
| "py_str PyNone = ''None''"
| "py_str NaN = ''nan''"

record dataframe =
  columns :: "string list"
  rows :: "(string \<Rightarrow> cell) list"

text \<open>\<^verbatim>\<open>df.empty\<close>: some axis has length 0.\<close>

definition df_empty :: "dataframe \<Rightarrow> bool" where
  "df_empty df = (rows df = [] \<or> columns df = [])"

datatype py_error = KeyError string

subsection \<open>\<^verbatim>\<open>_extract_raw_amounts\<close> (lines 143-172)\<close>

text \<open>
  Lines 152-158, the body of the \<^verbatim>\<open>try\<close> block once the cell text is known.
  \<open>None\<close> is the exception caught at line 159.
\<close>

definition parse_amount :: "pylib \<Rightarrow> string \<Rightarrow> real option" where
  "parse_amount L raw =
     (let val = remove_commas raw;
          val = (if CHR ''('' \<in> set val \<and> CHR '')'' \<in> set val
                 then CHR ''-'' # strip_chars ''()'' val else val)
      in if py_strip val = ''-'' \<or> py_strip val = '''' then Some 0
         else to_float L val)"

text \<open>
  Line 148: the rows whose account name contains the keyword. A missing account name
  never matches (\<^verbatim>\<open>na=False\<close>).
\<close>

definition matching_rows :: "pylib \<Rightarrow> dataframe \<Rightarrow> string \<Rightarrow> (string \<Rightarrow> cell) list" where
  "matching_rows L df keyword =
     filter (\<lambda>r. case r ''account_nm'' of Text nm \<Rightarrow> str_contains L keyword nm | _ \<Rightarrow> False)
       (rows df)"

text \<open>Line 151: \<^verbatim>\<open>rows.iloc[0].get(column, '0')\<close>, then \<^verbatim>\<open>str\<close>.\<close>

definition cell_text :: "dataframe \<Rightarrow> (string \<Rightarrow> cell) \<Rightarrow> string \<Rightarrow> string" where
  "cell_text df r column = (if column \<in> set (columns df) then py_str (r column) else ''0'')"

text \<open>
  \<^verbatim>\<open>find_amount\<close> (lines 146-161). \<^verbatim>\<open>df['account_nm']\<close> is outside the \<^verbatim>\<open>try\<close>
  block and raises \<^verbatim>\<open>KeyError\<close> when the record has no such column.
\<close>

fun find_amount :: "pylib \<Rightarrow> dataframe \<Rightarrow> string \<Rightarrow> string list \<Rightarrow> py_error + real" where
  "find_amount L df column [] = Inr 0"
| "find_amount L df column (keyword # keywords) =
     (if ''account_nm'' \<notin> set (columns df) then Inl (KeyError ''account_nm'')
      else (case matching_rows L df keyword of
              [] \<Rightarrow> find_amount L df column keywords
            | r # _ \<Rightarrow>
                (case parse_amount L (cell_text df r column) of
                   Some v \<Rightarrow> Inr v
                 | None \<Rightarrow> find_amount L df column keywords)))"

text \<open>The synonym lists of lines 164-171, in source order.\<close>

definition metric_keywords :: "(string \<times> string list) list" where
  "metric_keywords =
     [(key_revenue, [key_revenue, ''revenue'', ''sales'']),
      (key_cost_of_sales, [key_cost_of_sales, ''cost of sales'']),
      (key_gross_profit, [key_gross_profit, ''gross profit'', kw_total_profit]),
      (key_operating_profit, [key_operating_profit, ''operating profit'', kw_operating_pl]),
      (key_net_income, [key_net_income, ''net income'', kw_net_profit]),
      (key_sga, [kw_selling_and_admin, key_sga, ''selling and administrative'']),
      (key_selling_expenses, [key_selling_expenses, ''selling expenses'']),
      (key_admin_expenses, [key_admin_expenses, ''administrative expenses''])]"

text \<open>
  The dict literal of lines 163-172: the entries are evaluated in order and the first
  exception leaves the function.
\<close>

type_synonym amounts = "(string, real) fmap"

fun extract_entries ::
  "pylib \<Rightarrow> dataframe \<Rightarrow> string \<Rightarrow> (string \<times> string list) list \<Rightarrow> amounts
   \<Rightarrow> py_error + amounts" where
  "extract_entries L df column [] acc = Inr acc"
| "extract_entries L df column ((key, keywords) # rest) acc =
     (case find_amount L df column keywords of
        Inl e \<Rightarrow> Inl e
      | Inr v \<Rightarrow> extract_entries L df column rest (fmupd key v acc))"

definition extract_raw_amounts :: "pylib \<Rightarrow> dataframe \<Rightarrow> string \<Rightarrow> py_error + amounts" where
  "extract_raw_amounts L df column = extract_entries L df column metric_keywords fmempty"

subsection \<open>\<^verbatim>\<open>_build_display_row\<close> (lines 175-196)\<close>

text \<open>
  A display row is a dict from column name to a company name or label (\<open>PStr\<close>), the
  year (\<open>PInt\<close>) or a number (\<open>PFloat\<close>).
\<close>

datatype pyval = PStr string | PInt int | PFloat real

type_synonym display_row = "(string, pyval) fmap"

text \<open>
  Lines 182-187, one line each:
  \<^verbatim>\<open>if raw.get(key): row[field] = raw[key] / divisor\<close>.
  A float is true when it is not zero; \<^verbatim>\<open>None\<close> (key absent) is false.
\<close>

definition set_scaled :: "amounts \<Rightarrow> string \<Rightarrow> string \<Rightarrow> real \<Rightarrow> display_row \<Rightarrow> display_row" where
  "set_scaled raw key field divisor row =
     (case fmlookup raw key of
        None \<Rightarrow> row
      | Some v \<Rightarrow> if v \<noteq> 0 then fmupd field (PFloat (v / divisor)) row else row)"

text \<open>
  Lines 192-195, one line each, under \<^verbatim>\<open>if sales:\<close>:
  \<^verbatim>\<open>if key in raw: row[field] = (raw[key] / sales) * 100\<close>.
\<close>

definition set_ratio :: "amounts \<Rightarrow> real \<Rightarrow> string \<Rightarrow> string \<Rightarrow> display_row \<Rightarrow> display_row" where
  "set_ratio raw sales key field row =
     (case fmlookup raw key of
        None \<Rightarrow> row
      | Some v \<Rightarrow> fmupd field (PFloat ((v / sales) * 100)) row)"

text \<open>\<^verbatim>\<open>if report_name:\<close> holds for a string that is not empty; the default is \<^verbatim>\<open>None\<close>.\<close>

definition build_display_row ::
  "string \<Rightarrow> int \<Rightarrow> string \<Rightarrow> amounts \<Rightarrow> string option \<Rightarrow> display_row" where
  "build_display_row company_name year label raw report_name =
     (let row = fmap_of_list [(col_company, PStr company_name), (col_year, PInt year),
                              (col_quarter, PStr label)];
          row = (case report_name of
                   None \<Rightarrow> row
                 | Some n \<Rightarrow> if n \<noteq> [] then fmupd col_report (PStr n) row else row);
          row = set_scaled raw key_revenue col_revenue_tn 1000000000000 row;
          row = set_scaled raw key_cost_of_sales col_cost_of_sales_tn 1000000000000 row;
          row = set_scaled raw key_gross_profit col_gross_profit_tn 1000000000000 row;
          row = set_scaled raw key_operating_profit col_operating_profit_100m 100000000 row;
          row = set_scaled raw key_net_income col_net_income_100m 100000000 row;
          row = set_scaled raw key_sga col_sga_100m 100000000 row;
          sales = (case fmlookup raw key_revenue of None \<Rightarrow> 0 | Some v \<Rightarrow> v)
      in if sales \<noteq> 0
         then (let row = set_ratio raw sales key_operating_profit col_operating_margin row;
                   row = set_ratio raw sales key_gross_profit col_gross_margin row;
                   row = set_ratio raw sales key_net_income col_net_margin row;
                   row = set_ratio raw sales key_cost_of_sales col_cost_ratio row
               in row)
         else row)"

subsection \<open>\<^verbatim>\<open>collect_quarterly_data\<close> (lines 198-265)\<close>

record dart_collector =
  get_corp_code_enhanced :: "string \<Rightarrow> string option"
  get_financial_statement :: "string \<Rightarrow> string \<Rightarrow> string \<Rightarrow> dataframe"

text \<open>\<^verbatim>\<open>str(year)\<close> for an integer year: its decimal digits, after a minus sign if negative.\<close>

definition digit_char :: "int \<Rightarrow> char" where
  "digit_char d =
     (case map_of (zip [0, 1, 2, 3, 4, 5, 6, 7, 8, 9] ''0123456789'') d of
        None \<Rightarrow> CHR ''0''
      | Some c \<Rightarrow> c)"

function str_digits :: "int \<Rightarrow> string" where
  "str_digits n =
     (if n < 10 then [digit_char n] else str_digits (n div 10) @ [digit_char (n mod 10)])"
  by pat_completeness auto
termination
  by (relation "measure nat") auto

declare str_digits.simps [simp del]

definition str_int :: "int \<Rightarrow> string" where
  "str_int i = (if i < 0 then CHR ''-'' # str_digits (- i) else str_digits i)"

text \<open>\<^verbatim>\<open>self.report_codes\<close> (lines 129-134), in insertion order.\<close>

definition report_codes :: "(string \<times> string) list" where
  "report_codes =
     [(''Q1'', ''11013''), (''Q2'', ''11012''), (''Q3'', ''11014''), (''Q4'', ''11011'')]"

text \<open>
  The loop of lines 209-220 over the report codes. \<open>fetch code\<close> is
  \<^verbatim>\<open>get_financial_statement(corp_code, str(year), code)\<close>; the state is the pair of
  dicts \<^verbatim>\<open>curr\<close> and \<^verbatim>\<open>cum\<close>.
\<close>

type_synonym quarters = "(string, amounts) fmap"

fun collect_raw ::
  "pylib \<Rightarrow> (string \<Rightarrow> dataframe) \<Rightarrow> (string \<times> string) list \<Rightarrow> quarters \<times> quarters
   \<Rightarrow> py_error + (quarters \<times> quarters)" where
  "collect_raw L fetch [] (cur, cum) = Inr (cur, cum)"
| "collect_raw L fetch ((q, code) # rest) (cur, cum) =
     (let df = fetch code in
      if df_empty df then collect_raw L fetch rest (cur, cum)
      else (case extract_raw_amounts L df ''thstrm_amount'' of
              Inl e \<Rightarrow> Inl e
            | Inr c \<Rightarrow>
                (if ''thstrm_add_amount'' \<in> set (columns df)
                 then (case extract_raw_amounts L df ''thstrm_add_amount'' of
                         Inl e \<Rightarrow> Inl e
                       | Inr a \<Rightarrow> collect_raw L fetch rest (fmupd q c cur, fmupd q a cum))
                 else collect_raw L fetch rest (fmupd q c cur, fmupd q c cum))))"

text \<open>
  \<^verbatim>\<open>float(d.get(k, 0) or 0)\<close> (lines 229 and 233): the value of \<open>k\<close>, or 0 when the
  key is absent or its value is false.
\<close>

definition get_or0 :: "('k, real) fmap \<Rightarrow> 'k \<Rightarrow> real" where
  "get_or0 d k = (case fmlookup d k of None \<Rightarrow> 0 | Some v \<Rightarrow> if v \<noteq> 0 then v else 0)"

text \<open>
  A dict comprehension \<^verbatim>\<open>{k: f(k) for k in keys}\<close> over the union of the key sets of
  some dicts: the union is the key set of the merged dicts, and each key gets a new
  value that does not depend on the merged one.
\<close>

definition union_keys :: "('k, 'v) fmap list \<Rightarrow> ('k, 'v) fmap" where
  "union_keys ds = foldr fmadd ds fmempty"

definition dict_comp :: "('k, 'x) fmap \<Rightarrow> ('k \<Rightarrow> 'v) \<Rightarrow> ('k, 'v) fmap" where
  "dict_comp keys f = fmmap_keys (\<lambda>k _. f k) keys"

text \<open>
  \<^verbatim>\<open>add_dicts\<close> (lines 227-229): empty dicts are left out (\<^verbatim>\<open>if d\<close>); the keys
  are the union of the keys of the others; \<^verbatim>\<open>sum\<close> adds from the left, starting at 0.
\<close>

definition add_dicts :: "('k, real) fmap list \<Rightarrow> ('k, real) fmap" where
  "add_dicts dicts =
     (let ds = filter (\<lambda>d. d \<noteq> fmempty) dicts in
      dict_comp (union_keys ds) (\<lambda>k. foldl (+) 0 (map (\<lambda>d. get_or0 d k) ds)))"

text \<open>\<^verbatim>\<open>sub_dict\<close> (lines 231-233).\<close>

definition sub_dict :: "('k, real) fmap \<Rightarrow> ('k, real) fmap \<Rightarrow> ('k, real) fmap" where
  "sub_dict a b = dict_comp (union_keys [a, b]) (\<lambda>k. get_or0 a k - get_or0 b k)"

text \<open>\<^verbatim>\<open>curr.get(q, {})\<close> (lines 236-238).\<close>

definition get_quarter :: "quarters \<Rightarrow> string \<Rightarrow> amounts" where
  "get_quarter cur q = (case fmlookup cur q of None \<Rightarrow> fmempty | Some d \<Rightarrow> d)"

text \<open>Lines 236-244: the derived fourth quarter \<^verbatim>\<open>q4\<close>.\<close>

definition derive_q4 :: "quarters \<Rightarrow> amounts" where
  "derive_q4 cur =
     (let q1 = get_quarter cur ''Q1'';
          q2 = get_quarter cur ''Q2'';
          q3 = get_quarter cur ''Q3''
      in case fmlookup cur ''Q4'' of
           Some annual \<Rightarrow> sub_dict annual (add_dicts [q1, q2, q3])
         | None \<Rightarrow> fmempty)"

text \<open>
  Lines 256-263: the table. A row is appended for a quarter whose dict is true (not
  empty), and the annual row when \<^verbatim>\<open>'Q4' in cum\<close>.
\<close>

definition row_if ::
  "string \<Rightarrow> int \<Rightarrow> string \<Rightarrow> amounts \<Rightarrow> string \<Rightarrow> display_row list" where
  "row_if company_name year suffix q name =
     (if q \<noteq> fmempty
      then [build_display_row company_name year (str_int year @ suffix) q (Some name)]
      else [])"

definition make_rows :: "string \<Rightarrow> int \<Rightarrow> quarters \<Rightarrow> quarters \<Rightarrow> display_row list" where
  "make_rows company_name year cur cum =
     row_if company_name year ''Q1'' (get_quarter cur ''Q1'') name_q1
     @ row_if company_name year ''Q2'' (get_quarter cur ''Q2'') name_q2
     @ row_if company_name year ''Q3'' (get_quarter cur ''Q3'') name_q3
     @ row_if company_name year ''Q4'' (derive_q4 cur) name_q4
     @ (case fmlookup cum ''Q4'' of
          Some annual \<Rightarrow>
            [build_display_row company_name year (str_int year @ suffix_annual) annual
               (Some name_annual)]
        | None \<Rightarrow> [])"

text \<open>
  The whole routine. \<^verbatim>\<open>if not corp_code\<close> holds for \<^verbatim>\<open>None\<close> and for the empty
  string; \<^verbatim>\<open>if not curr\<close> holds for the empty dict. The empty table is \<open>[]\<close>.
\<close>

definition collect_quarterly_data ::
  "pylib \<Rightarrow> dart_collector \<Rightarrow> string \<Rightarrow> int \<Rightarrow> py_error + display_row list" where
  "collect_quarterly_data L dart company_name year =
     (case get_corp_code_enhanced dart company_name of
        None \<Rightarrow> Inr []
      | Some corp_code \<Rightarrow>
          if corp_code = [] then Inr []
          else (case collect_raw L (get_financial_statement dart corp_code (str_int year))
                       report_codes (fmempty, fmempty) of
                  Inl e \<Rightarrow> Inl e
                | Inr (cur, cum) \<Rightarrow>
                    if cur = fmempty then Inr []
                    else Inr (make_rows company_name year cur cum)))"

subsection \<open>Reference notions of the specification\<close>

text \<open>
  The specification speaks of \<open>present(q)\<close>, the amount map of quarter \<open>q\<close> or the
  all-zero map when the quarter is absent, with missing keys read as 0; and of the
  union of the keys of the maps involved.
\<close>

definition present :: "quarters \<Rightarrow> string \<Rightarrow> string \<Rightarrow> real" where
  "present cur q k =
     (case fmlookup cur q of
        None \<Rightarrow> 0
      | Some d \<Rightarrow> (case fmlookup d k of None \<Rightarrow> 0 | Some v \<Rightarrow> v))"

definition quarter_keys :: "quarters \<Rightarrow> string \<Rightarrow> string set" where
  "quarter_keys cur q = (case fmlookup cur q of None \<Rightarrow> {} | Some d \<Rightarrow> fmdom' d)"

text \<open>The value of a key in an amount map, 0 when the key is absent.\<close>

definition amount :: "amounts \<Rightarrow> string \<Rightarrow> real" where
  "amount raw key = (case fmlookup raw key of None \<Rightarrow> 0 | Some v \<Rightarrow> v)"

text \<open>
  The display fields of the specification: the six scaled amounts with their source key
  and divisor, and the four ratios with their numerator key.
\<close>

definition scaled_fields :: "(string \<times> string \<times> real) list" where
  "scaled_fields =
     [(key_revenue, col_revenue_tn, 10 ^ 12),
      (key_cost_of_sales, col_cost_of_sales_tn, 10 ^ 12),
      (key_gross_profit, col_gross_profit_tn, 10 ^ 12),
      (key_operating_profit, col_operating_profit_100m, 10 ^ 8),
      (key_net_income, col_net_income_100m, 10 ^ 8),
      (key_sga, col_sga_100m, 10 ^ 8)]"

definition ratio_fields :: "(string \<times> string) list" where
  "ratio_fields =
     [(key_operating_profit, col_operating_margin),
      (key_gross_profit, col_gross_margin),
      (key_net_income, col_net_margin),
      (key_cost_of_sales, col_cost_ratio)]"

text \<open>
  The record fetched for a report code; the empty record when the company is not
  resolved (no fetch is made then).
\<close>

definition no_data :: dataframe where
  "no_data = \<lparr>columns = [], rows = []\<rparr>"

definition fetched :: "dart_collector \<Rightarrow> string \<Rightarrow> int \<Rightarrow> string \<Rightarrow> dataframe" where
  "fetched dart company_name year code =
     (case get_corp_code_enhanced dart company_name of
        None \<Rightarrow> no_data
      | Some corp_code \<Rightarrow>
          if corp_code = [] then no_data
          else get_financial_statement dart corp_code (str_int year) code)"

text \<open>
  The current-period and the cumulative amount maps of a fetched record: \<open>None\<close> for
  an empty record (the quarter is skipped). The cumulative map falls back to the
  current-period column when the record has no cumulative column.
\<close>

definition current_amounts :: "pylib \<Rightarrow> dataframe \<Rightarrow> amounts option" where
  "current_amounts L df =
     (if df_empty df then None
      else (case extract_raw_amounts L df ''thstrm_amount'' of
              Inl e \<Rightarrow> None
            | Inr c \<Rightarrow> Some c))"

definition cumulative_amounts :: "pylib \<Rightarrow> dataframe \<Rightarrow> amounts option" where
  "cumulative_amounts L df =
     (if df_empty df then None
      else (case extract_raw_amounts L df
                   (if ''thstrm_add_amount'' \<in> set (columns df) then ''thstrm_add_amount''
                    else ''thstrm_amount'') of
              Inl e \<Rightarrow> None
            | Inr c \<Rightarrow> Some c))"

text \<open>The characters of a plain decimal numeral: digits and the decimal point.\<close>

definition decimal_chars :: "string \<Rightarrow> bool" where
  "decimal_chars s = list_all (\<lambda>c. is_digit c \<or> c = CHR ''.'') s"

text \<open>A row is identified in the table by its quarter label.\<close>

definition has_label :: "string \<Rightarrow> display_row \<Rightarrow> bool" where
  "has_label label row = (fmlookup row col_quarter = Some (PStr label))"

text \<open>The quarters whose row is built from the current-period amounts as extracted.\<close>

definition direct_quarters :: "(string \<times> string \<times> string) list" where
  "direct_quarters =
     [(''Q1'', ''11013'', name_q1), (''Q2'', ''11012'', name_q2), (''Q3'', ''11014'', name_q3)]"




subsection \<open>Example inputs\<close>

text \<open>The example of the specification: annual revenue 100, quarterly 20, 30 and 25.\<close>

definition ex_quarters :: quarters where
  "ex_quarters = fmap_of_list
     [(''Q1'', fmap_of_list [(key_revenue, 20)]),
      (''Q2'', fmap_of_list [(key_revenue, 30)]),
      (''Q3'', fmap_of_list [(key_revenue, 25)]),
      (''Q4'', fmap_of_list [(key_revenue, 100)])]"

text \<open>
  A loss-making fourth quarter: annual operating profit 50 after 100 in the first
  quarter, so that the derived fourth-quarter operating profit is -50.
\<close>

definition ex_loss :: quarters where
  "ex_loss = fmap_of_list
     [(''Q1'', fmap_of_list [(key_operating_profit, 100)]),
      (''Q4'', fmap_of_list [(key_operating_profit, 50)])]"

text \<open>Amount maps with zero revenue and with revenue 200, both with a gross profit.\<close>

definition ex_no_revenue :: amounts where
  "ex_no_revenue = fmap_of_list [(key_revenue, 0), (key_gross_profit, 5)]"

definition ex_revenue :: amounts where
  "ex_revenue = fmap_of_list [(key_revenue, 200), (key_gross_profit, 50)]"

text \<open>
  Filing records: a first-quarter record with revenue 100, and an annual record whose
  only line is a revenue of \<^verbatim>\<open>-\<close> (nil), so that every annual amount is 0.
\<close>

definition ex_df_q1 :: dataframe where
  "ex_df_q1 =
     \<lparr>columns = [''account_nm'', ''thstrm_amount''],
      rows = [(\<lambda>_. NaN)(''account_nm'' := Text ''Revenue'', ''thstrm_amount'' := Text ''100'')]\<rparr>"



definition ex_dart_q1 :: dart_collector where
  "ex_dart_q1 =
     \<lparr>get_corp_code_enhanced = (\<lambda>_. Some ''00126380''),
      get_financial_statement = (\<lambda>corp_code bsns_year reprt_code.
        if reprt_code = ''11013'' then ex_df_q1 else no_data)\<rparr>"

definition ex_dart_no_data :: dart_collector where
  "ex_dart_no_data =
     \<lparr>get_corp_code_enhanced = (\<lambda>_. Some ''00126380''),
      get_financial_statement = (\<lambda>corp_code bsns_year reprt_code. no_data)\<rparr>"

definition ex_dart_unknown :: dart_collector where
  "ex_dart_unknown =
     \<lparr>get_corp_code_enhanced = (\<lambda>_. None),
      get_financial_statement = (\<lambda>corp_code bsns_year reprt_code. ex_df_q1)\<rparr>"

text \<open>The amount maps extracted from the two records.\<close>

definition ex_amounts_q1 :: amounts where
  "ex_amounts_q1 = fmap_of_list
     [(key_revenue, 100), (key_cost_of_sales, 0), (key_gross_profit, 0),
      (key_operating_profit, 0), (key_net_income, 0), (key_sga, 0),
      (key_selling_expenses, 0), (key_admin_expenses, 0)]"







section \<open>Properties\<close>

subsection \<open>Dict arithmetic\<close>

lemma get_or0_eq: "get_or0 d k = (case fmlookup d k of None \<Rightarrow> 0 | Some v \<Rightarrow> v)"
  by (simp add: get_or0_def split: option.splits)

lemma get_or0_empty [simp]: "get_or0 fmempty k = 0"
  by (simp add: get_or0_def)

lemma get_or0_fmupd: "get_or0 (fmupd k v m) k' = (if k = k' then v else get_or0 m k')"
  by (simp add: get_or0_def)

lemma fmdom'_union_keys: "fmdom' (union_keys ds) = (\<Union>d\<in>set ds. fmdom' d)"
  by (induction ds) (simp_all add: union_keys_def)

lemma fmlookup_dict_comp:
  "fmlookup (dict_comp keys f) k = (if k \<in> fmdom' keys then Some (f k) else None)"
  by (auto simp: dict_comp_def fmlookup_dom'_iff)

lemma foldl_add_sum_list: "foldl (+) a xs = a + sum_list (xs :: real list)"
  by (induction xs arbitrary: a) simp_all

lemma sum_filter_nonempty:
  "sum_list (map (\<lambda>d. get_or0 d k) (filter (\<lambda>d. d \<noteq> fmempty) ds)) =
   sum_list (map (\<lambda>d. get_or0 d k) ds)"
  by (induction ds) simp_all

lemma fmlookup_add_dicts:
  "fmlookup (add_dicts ds) k =
     (if k \<in> (\<Union>d\<in>set ds. fmdom' d) then Some (sum_list (map (\<lambda>d. get_or0 d k) ds))
      else None)"
  by (auto simp: add_dicts_def Let_def fmlookup_dict_comp fmdom'_union_keys foldl_add_sum_list
      sum_filter_nonempty)

lemma fmdom'_add_dicts: "fmdom' (add_dicts ds) = (\<Union>d\<in>set ds. fmdom' d)"
proof (rule set_eqI)
  fix k
  show "k \<in> fmdom' (add_dicts ds) \<longleftrightarrow> k \<in> (\<Union>d\<in>set ds. fmdom' d)"
    by (simp add: fmlookup_dom'_iff [of k "add_dicts ds"] fmlookup_add_dicts)
qed

lemma get_or0_outside: "k \<notin> fmdom' d \<Longrightarrow> get_or0 d k = 0"
  by (simp add: get_or0_eq fmdom'_notD)

lemma sum_outside:
  "k \<notin> (\<Union>d\<in>set ds. fmdom' d) \<Longrightarrow> sum_list (map (\<lambda>d. get_or0 d k) ds) = 0"
  by (induction ds) (simp_all add: get_or0_outside)

lemma get_or0_add_dicts: "get_or0 (add_dicts ds) k = sum_list (map (\<lambda>d. get_or0 d k) ds)"
proof (cases "k \<in> (\<Union>d\<in>set ds. fmdom' d)")
  case True
  then show ?thesis
    by (simp add: get_or0_eq [of "add_dicts ds"] fmlookup_add_dicts)
next
  case False
  then show ?thesis
    by (simp add: get_or0_eq [of "add_dicts ds"] fmlookup_add_dicts sum_outside)
qed

lemma fmlookup_sub_dict:
  "fmlookup (sub_dict a b) k =
     (if k \<in> fmdom' a \<union> fmdom' b then Some (get_or0 a k - get_or0 b k) else None)"
  by (auto simp: sub_dict_def fmlookup_dict_comp fmdom'_union_keys)

lemma sub_dict_empty: "sub_dict a fmempty = a"
  by (rule fmap_ext)
    (auto simp: fmlookup_sub_dict get_or0_eq fmlookup_dom'_iff split: option.splits)

lemma add_dicts_empty: "add_dicts [fmempty, fmempty, fmempty] = fmempty"
  by (rule fmap_ext) (simp add: fmlookup_add_dicts)

lemma get_quarter_present: "get_or0 (get_quarter cur q) k = present cur q k"
  by (simp add: get_quarter_def present_def get_or0_eq split: option.splits)

lemma get_quarter_keys: "fmdom' (get_quarter cur q) = quarter_keys cur q"
  by (simp add: get_quarter_def quarter_keys_def split: option.splits)

subsection \<open>The amount extractor\<close>

lemmas key_defs = key_revenue_def key_cost_of_sales_def key_gross_profit_def
  key_operating_profit_def key_net_income_def key_sga_def key_selling_expenses_def
  key_admin_expenses_def

lemma find_amount_Inr:
  "''account_nm'' \<in> set (columns df) \<Longrightarrow> \<exists>v. find_amount L df column kws = Inr v"
  by (induction kws) (auto split: list.splits option.splits)

lemma find_amount_KeyError:
  "''account_nm'' \<notin> set (columns df) \<Longrightarrow> kws \<noteq> [] \<Longrightarrow>
   find_amount L df column kws = Inl (KeyError ''account_nm'')"
  by (cases kws) simp_all



lemma find_amount_hit:
  "''account_nm'' \<in> set (columns df) \<Longrightarrow> matching_rows L df kw = r # rs \<Longrightarrow>
   parse_amount L (cell_text df r column) = Some v \<Longrightarrow>
   find_amount L df column (kw # kws) = Inr v"
  by simp

lemma extract_entries_lookup:
  "extract_entries L df column es acc = Inr m \<Longrightarrow> distinct (map fst es) \<Longrightarrow>
   fmlookup m k =
     (case map_of es k of
        None \<Rightarrow> fmlookup acc k
      | Some kws \<Rightarrow> (case find_amount L df column kws of Inl e \<Rightarrow> None | Inr v \<Rightarrow> Some v))"
proof (induction es arbitrary: acc)
  case Nil
  then show ?case by simp
next
  case (Cons e es)
  obtain key kws where e: "e = (key, kws)" by (cases e)
  from Cons.prems(1) e obtain v where
    v: "find_amount L df column kws = Inr v" and
    rest: "extract_entries L df column es (fmupd key v acc) = Inr m"
    by (auto split: sum.splits)
  from Cons.prems(2) e have d: "distinct (map fst es)" and notin: "key \<notin> fst ` set es"
    by auto
  from notin have none: "map_of es key = None"
    by (simp add: map_of_eq_None_iff)
  show ?case
    using Cons.IH [OF rest d] e v none
    by (auto split: option.splits)
qed

lemma extract_entries_Inr:
  "''account_nm'' \<in> set (columns df) \<Longrightarrow> \<exists>m. extract_entries L df column es acc = Inr m"
proof (induction es arbitrary: acc)
  case Nil
  then show ?case by simp
next
  case (Cons e es)
  obtain key kws where e: "e = (key, kws)" by (cases e)
  from find_amount_Inr [OF Cons.prems] obtain v where "find_amount L df column kws = Inr v"
    by blast
  with Cons.IH [OF Cons.prems] e show ?case by simp
qed

lemma metric_keywords_distinct: "distinct (map fst metric_keywords)"
  by (simp add: metric_keywords_def key_defs)

lemma extract_raw_amounts_Inr:
  "''account_nm'' \<in> set (columns df) \<Longrightarrow> \<exists>m. extract_raw_amounts L df column = Inr m"
  by (simp add: extract_raw_amounts_def extract_entries_Inr)

lemma extract_raw_amounts_KeyError:
  "''account_nm'' \<notin> set (columns df) \<Longrightarrow>
   extract_raw_amounts L df column = Inl (KeyError ''account_nm'')"
  by (simp add: extract_raw_amounts_def metric_keywords_def)

lemma extract_raw_amounts_lookup:
  "extract_raw_amounts L df column = Inr m \<Longrightarrow>
   fmlookup m k =
     (case map_of metric_keywords k of
        None \<Rightarrow> None
      | Some kws \<Rightarrow> (case find_amount L df column kws of Inl e \<Rightarrow> None | Inr v \<Rightarrow> Some v))"
  using extract_entries_lookup [of L df column metric_keywords fmempty m k]
  by (simp add: extract_raw_amounts_def metric_keywords_distinct split: option.splits)

lemma extract_raw_amounts_columns:
  "extract_raw_amounts L df column = Inr m \<Longrightarrow> ''account_nm'' \<in> set (columns df)"
  using extract_raw_amounts_KeyError [of df L column] by auto

lemma extract_raw_amounts_dom:
  assumes "extract_raw_amounts L df column = Inr m"
  shows "fmdom' m = fst ` set metric_keywords"
proof (rule set_eqI)
  fix k
  have acct: "''account_nm'' \<in> set (columns df)"
    using assms by (rule extract_raw_amounts_columns)
  show "k \<in> fmdom' m \<longleftrightarrow> k \<in> fst ` set metric_keywords"
  proof (cases "map_of metric_keywords k")
    case None
    then show ?thesis
      using extract_raw_amounts_lookup [OF assms, of k]
      by (simp add: fmlookup_dom'_iff [of k m] map_of_eq_None_iff [symmetric])
  next
    case (Some kws)
    from find_amount_Inr [OF acct] obtain v where "find_amount L df column kws = Inr v"
      by blast
    with Some show ?thesis
      using extract_raw_amounts_lookup [OF assms, of k]
      by (auto simp: fmlookup_dom'_iff dest: map_of_SomeD intro: rev_image_eqI)
  qed
qed

lemma extract_raw_amounts_nonempty:
  "extract_raw_amounts L df column = Inr m \<Longrightarrow> m \<noteq> fmempty"
  using extract_raw_amounts_dom [of L df column m]
  by (auto simp: metric_keywords_def)

subsection \<open>The collection loop\<close>

lemma collect_raw_lookup:
  "collect_raw L fetch codes (cur, cum) = Inr (cur', cum') \<Longrightarrow> distinct (map fst codes) \<Longrightarrow>
   fmlookup cur' q =
     (case map_of codes q of
        None \<Rightarrow> fmlookup cur q
      | Some code \<Rightarrow>
          (case current_amounts L (fetch code) of None \<Rightarrow> fmlookup cur q | Some c \<Rightarrow> Some c))
   \<and> fmlookup cum' q =
     (case map_of codes q of
        None \<Rightarrow> fmlookup cum q
      | Some code \<Rightarrow>
          (case cumulative_amounts L (fetch code) of None \<Rightarrow> fmlookup cum q | Some c \<Rightarrow> Some c))"
proof (induction codes arbitrary: cur cum)
  case Nil
  then show ?case by simp
next
  case (Cons e codes)
  obtain q0 code0 where e: "e = (q0, code0)" by (cases e)
  from Cons.prems(2) e have d: "distinct (map fst codes)" and notin: "q0 \<notin> fst ` set codes"
    by auto
  from notin have none: "map_of codes q0 = None"
    by (simp add: map_of_eq_None_iff)
  show ?case
  proof (cases "df_empty (fetch code0)")
    case True
    with Cons.prems(1) e have rest: "collect_raw L fetch codes (cur, cum) = Inr (cur', cum')"
      by simp
    show ?thesis
      using Cons.IH [OF rest d] e True none
      by (auto simp: current_amounts_def cumulative_amounts_def split: option.splits)
  next
    case False
    from Cons.prems(1) e False obtain c where
      c: "extract_raw_amounts L (fetch code0) ''thstrm_amount'' = Inr c"
      by (auto simp: Let_def split: sum.splits)
    show ?thesis
    proof (cases "''thstrm_add_amount'' \<in> set (columns (fetch code0))")
      case True
      from Cons.prems(1) e False c True obtain a where
        a: "extract_raw_amounts L (fetch code0) ''thstrm_add_amount'' = Inr a" and
        rest: "collect_raw L fetch codes (fmupd q0 c cur, fmupd q0 a cum) = Inr (cur', cum')"
        by (auto simp: Let_def split: sum.splits)
      show ?thesis
        using Cons.IH [OF rest d] e False c a True none
        by (auto simp: current_amounts_def cumulative_amounts_def split: option.splits)
    next
      case nocol: False
      from Cons.prems(1) e False c nocol have
        rest: "collect_raw L fetch codes (fmupd q0 c cur, fmupd q0 c cum) = Inr (cur', cum')"
        by (auto simp: Let_def split: sum.splits)
      show ?thesis
        using Cons.IH [OF rest d] e False c nocol none
        by (auto simp: current_amounts_def cumulative_amounts_def split: option.splits)
    qed
  qed
qed


lemma collect_raw_current:
  "collect_raw L fetch codes (cur, cum) = Inr (cur', cum') \<Longrightarrow> (q, code) \<in> set codes \<Longrightarrow>
   \<not> df_empty (fetch code) \<Longrightarrow> \<exists>c. current_amounts L (fetch code) = Some c"
proof (induction codes arbitrary: cur cum)
  case Nil
  then show ?case by simp
next
  case (Cons e codes)
  obtain q0 code0 where e: "e = (q0, code0)" by (cases e)
  show ?case
  proof (cases "code0 = code")
    case True
    with Cons.prems e show ?thesis
      by (auto simp: Let_def current_amounts_def split: sum.splits)
  next
    case False
    with Cons.prems(2) e have mem: "(q, code) \<in> set codes"
      by auto
    from Cons.prems(1) e obtain cur0 cum0 where
      "collect_raw L fetch codes (cur0, cum0) = Inr (cur', cum')"
      by (auto simp: Let_def split: sum.splits if_splits)
    then show ?thesis
      using mem Cons.prems(3) by (rule Cons.IH)
  qed
qed

subsection \<open>The display row\<close>

lemmas col_defs = col_company_def col_year_def col_quarter_def col_report_def
  col_revenue_tn_def col_cost_of_sales_tn_def col_gross_profit_tn_def
  col_operating_profit_100m_def col_net_income_100m_def col_sga_100m_def
  col_operating_margin_def col_gross_margin_def col_net_margin_def col_cost_ratio_def

lemma set_scaled_other:
  "f \<noteq> field \<Longrightarrow> fmlookup (set_scaled raw key field d row) f = fmlookup row f"
  by (simp add: set_scaled_def split: option.splits)

lemma set_scaled_same:
  "fmlookup (set_scaled raw key field d row) field =
     (case fmlookup raw key of
        None \<Rightarrow> fmlookup row field
      | Some v \<Rightarrow> if v \<noteq> 0 then Some (PFloat (v / d)) else fmlookup row field)"
  by (simp add: set_scaled_def split: option.splits)

lemma set_ratio_other:
  "f \<noteq> field \<Longrightarrow> fmlookup (set_ratio raw sales key field row) f = fmlookup row f"
  by (simp add: set_ratio_def split: option.splits)

lemma set_ratio_same:
  "fmlookup (set_ratio raw sales key field row) field =
     (case fmlookup raw key of
        None \<Rightarrow> fmlookup row field
      | Some v \<Rightarrow> Some (PFloat ((v / sales) * 100)))"
  by (simp add: set_ratio_def split: option.splits)


lemmas row_simps = build_display_row_def Let_def set_scaled_other set_scaled_same
  set_ratio_other set_ratio_same col_defs

lemma row_company: "fmlookup (build_display_row c y l raw rn) col_company = Some (PStr c)"
  by (simp add: row_simps split: option.splits)

lemma row_year: "fmlookup (build_display_row c y l raw rn) col_year = Some (PInt y)"
  by (simp add: row_simps split: option.splits)

lemma row_quarter: "fmlookup (build_display_row c y l raw rn) col_quarter = Some (PStr l)"
  by (simp add: row_simps split: option.splits)

lemma row_report:
  "fmlookup (build_display_row c y l raw (Some n)) col_report =
     (if n \<noteq> [] then Some (PStr n) else None)"
  by (simp add: row_simps split: option.splits)

lemma row_scaled:
  "(key, field, d) \<in> set scaled_fields \<Longrightarrow>
   fmlookup (build_display_row c y l raw rn) field =
     (if amount raw key \<noteq> 0 then Some (PFloat (amount raw key / d)) else None)"
  apply (simp only: scaled_fields_def list.simps(15) insert_iff empty_iff prod.inject simp_thms)
  apply (elim disjE conjE)
       apply (simp_all add: row_simps amount_def split: option.split)
  done

lemma row_ratio:
  "(key, field) \<in> set ratio_fields \<Longrightarrow>
   fmlookup (build_display_row c y l raw rn) field =
     (if amount raw key_revenue \<noteq> 0 \<and> key |\<in>| fmdom raw
      then Some (PFloat (amount raw key / amount raw key_revenue * 100)) else None)"
  apply (simp only: ratio_fields_def list.simps(15) insert_iff empty_iff prod.inject simp_thms)
  apply (elim disjE conjE)
     apply (simp_all add: row_simps amount_def fmlookup_dom_iff split: option.split)
  done




subsection \<open>The table\<close>

lemma df_empty_no_data [simp]: "df_empty no_data"
  by (simp add: df_empty_def no_data_def)

lemma current_amounts_no_data [simp]: "current_amounts L no_data = None"
  by (simp add: current_amounts_def)

lemma cumulative_amounts_no_data [simp]: "cumulative_amounts L no_data = None"
  by (simp add: cumulative_amounts_def)

lemma current_amounts_Some:
  "current_amounts L df = Some c \<longleftrightarrow>
     \<not> df_empty df \<and> extract_raw_amounts L df ''thstrm_amount'' = Inr c"
  by (auto simp: current_amounts_def split: sum.splits)

lemma current_None_cumulative_None:
  assumes "current_amounts L df = None"
  shows "cumulative_amounts L df = None"
proof (cases "df_empty df")
  case True
  then show ?thesis by (simp add: cumulative_amounts_def)
next
  case False
  with assms have "\<not> (\<exists>c. extract_raw_amounts L df ''thstrm_amount'' = Inr c)"
    by (auto simp: current_amounts_def split: sum.splits)
  then have "''account_nm'' \<notin> set (columns df)"
    using extract_raw_amounts_Inr [of df L "''thstrm_amount''"] by blast
  then show ?thesis
    by (simp add: cumulative_amounts_def extract_raw_amounts_KeyError)
qed

lemma current_amounts_nonempty: "current_amounts L df = Some c \<Longrightarrow> c \<noteq> fmempty"
  by (auto simp: current_amounts_Some dest: extract_raw_amounts_nonempty)

lemma collect_raw_all_empty:
  "list_all (\<lambda>(q, code). df_empty (fetch code)) codes \<Longrightarrow>
   collect_raw L fetch codes (cur, cum) = Inr (cur, cum)"
  by (induction codes) auto

lemma report_codes_distinct: "distinct (map fst report_codes)"
  by (simp add: report_codes_def)

lemma make_rows_none:
  "fmlookup cur ''Q1'' = None \<Longrightarrow> fmlookup cur ''Q2'' = None \<Longrightarrow> fmlookup cur ''Q3'' = None \<Longrightarrow>
   fmlookup cur ''Q4'' = None \<Longrightarrow> fmlookup cum ''Q4'' = None \<Longrightarrow>
   make_rows cn y cur cum = []"
  by (simp add: make_rows_def row_if_def get_quarter_def derive_q4_def)

lemma fetched_resolved:
  "get_corp_code_enhanced dart cn = Some corp \<Longrightarrow> corp \<noteq> [] \<Longrightarrow>
   fetched dart cn y = get_financial_statement dart corp (str_int y)"
  by (rule ext) (simp add: fetched_def)

lemma fetched_unresolved:
  "get_corp_code_enhanced dart cn = None \<or> get_corp_code_enhanced dart cn = Some [] \<Longrightarrow>
   fetched dart cn y code = no_data"
  by (auto simp: fetched_def)

text \<open>
  Whenever the routine returns a table, the table is \<open>make_rows\<close> of two dicts that hold,
  for each report code, the amounts of the record fetched for it.
\<close>

lemma collect_make_rows:
  assumes "collect_quarterly_data L dart cn y = Inr table"
  shows "\<exists>cur cum. table = make_rows cn y cur cum
           \<and> (\<forall>q. fmlookup cur q =
                 (case map_of report_codes q of
                    None \<Rightarrow> None
                  | Some code \<Rightarrow> current_amounts L (fetched dart cn y code)))
           \<and> (\<forall>q. fmlookup cum q =
                 (case map_of report_codes q of
                    None \<Rightarrow> None
                  | Some code \<Rightarrow> cumulative_amounts L (fetched dart cn y code)))"
proof (cases "get_corp_code_enhanced dart cn = None \<or> get_corp_code_enhanced dart cn = Some []")
  case True
  then have "table = []"
    using assms by (auto simp: collect_quarterly_data_def)
  moreover have "make_rows cn y fmempty fmempty = []"
    by (simp add: make_rows_none)
  moreover have "\<And>code. fetched dart cn y code = no_data"
    using True by (rule fetched_unresolved)
  ultimately show ?thesis
    by (intro exI [of _ fmempty]) (simp split: option.splits)
next
  case False
  then obtain corp where corp: "get_corp_code_enhanced dart cn = Some corp" "corp \<noteq> []"
    by (cases "get_corp_code_enhanced dart cn") auto
  have f: "fetched dart cn y = get_financial_statement dart corp (str_int y)"
    using corp by (rule fetched_resolved)
  from assms corp obtain cur cum where
    raw: "collect_raw L (fetched dart cn y) report_codes (fmempty, fmempty) = Inr (cur, cum)"
    and table: "table = (if cur = fmempty then [] else make_rows cn y cur cum)"
    by (auto simp: collect_quarterly_data_def f split: sum.splits if_splits)
  have look: "fmlookup cur q =
                 (case map_of report_codes q of
                    None \<Rightarrow> None
                  | Some code \<Rightarrow> current_amounts L (fetched dart cn y code))
              \<and> fmlookup cum q =
                 (case map_of report_codes q of
                    None \<Rightarrow> None
                  | Some code \<Rightarrow> cumulative_amounts L (fetched dart cn y code))" for q
    using collect_raw_lookup [OF raw report_codes_distinct, of q]
    by (simp split: option.splits)
  have "make_rows cn y cur cum = []" if e: "cur = fmempty"
  proof -
    have none: "fmlookup cur q = None" for q
      using e by simp
    have "current_amounts L (fetched dart cn y ''11011'') = None"
      using look [of "''Q4''"] none [of "''Q4''"] by (simp add: report_codes_def)
    then have "cumulative_amounts L (fetched dart cn y ''11011'') = None"
      by (rule current_None_cumulative_None)
    then have "fmlookup cum ''Q4'' = None"
      using look [of "''Q4''"] by (simp add: report_codes_def)
    then show ?thesis
      using none by (simp add: make_rows_none)
  qed
  with table have "table = make_rows cn y cur cum"
    by simp
  with look show ?thesis
    by blast
qed

lemma collect_current:
  assumes "collect_quarterly_data L dart cn y = Inr table"
    and "(q, code) \<in> set report_codes"
    and "\<not> df_empty (fetched dart cn y code)"
  shows "\<exists>c. current_amounts L (fetched dart cn y code) = Some c"
proof (cases "get_corp_code_enhanced dart cn = None \<or> get_corp_code_enhanced dart cn = Some []")
  case True
  then have "fetched dart cn y code = no_data"
    by (rule fetched_unresolved)
  with assms(3) show ?thesis by simp
next
  case False
  then obtain corp where corp: "get_corp_code_enhanced dart cn = Some corp" "corp \<noteq> []"
    by (cases "get_corp_code_enhanced dart cn") auto
  have f: "fetched dart cn y = get_financial_statement dart corp (str_int y)"
    using corp by (rule fetched_resolved)
  from assms(1) corp obtain cur cum where
    "collect_raw L (fetched dart cn y) report_codes (fmempty, fmempty) = Inr (cur, cum)"
    by (auto simp: collect_quarterly_data_def f split: sum.splits if_splits)
  then show ?thesis
    using assms(2,3) by (rule collect_raw_current)
qed


lemma has_label_row [simp]: "has_label l (build_display_row c y l' raw rn) \<longleftrightarrow> l' = l"
  by (simp add: has_label_def row_quarter)

lemma filter_label_row_if:
  "filter (has_label (str_int y @ s)) (row_if cn y s' q name) =
     (if s' = s then row_if cn y s' q name else [])"
  by (simp add: row_if_def)

lemma annual_label_neq: "s \<in> {''Q1'', ''Q2'', ''Q3'', ''Q4''} \<Longrightarrow> suffix_annual \<noteq> s"
  by (auto simp: suffix_annual_def)

lemma filter_label_make_rows:
  assumes "(s, name) \<in> {(''Q1'', name_q1), (''Q2'', name_q2), (''Q3'', name_q3)}"
  shows "filter (has_label (str_int y @ s)) (make_rows cn y cur cum) =
           row_if cn y s (get_quarter cur s) name"
  using assms annual_label_neq [of s]
  by (auto simp: make_rows_def filter_label_row_if split: option.splits)

lemma filter_label_make_rows_q4:
  "filter (has_label (str_int y @ ''Q4'')) (make_rows cn y cur cum) =
     row_if cn y ''Q4'' (derive_q4 cur) name_q4"
  using annual_label_neq [of "''Q4''"]
  by (auto simp: make_rows_def filter_label_row_if split: option.splits)

subsection \<open>The example inputs evaluated\<close>

lemma ex_extract_q1: "extract_raw_amounts ascii_lib ex_df_q1 ''thstrm_amount'' = Inr ex_amounts_q1"
  by code_simp

lemma ex_collect_q1:
  "collect_quarterly_data ascii_lib ex_dart_q1 ''SK'' 2024
     = Inr [build_display_row ''SK'' 2024 ''2024Q1'' ex_amounts_q1 (Some name_q1)]"
  by code_simp

subsection \<open>Amount text\<close>

lemma strip_both_id:
  "s \<noteq> [] \<Longrightarrow> \<not> P (hd s) \<Longrightarrow> \<not> P (last s) \<Longrightarrow> rev (dropWhile P (rev (dropWhile P s))) = s"
proof -
  assume s: "s \<noteq> []" and h: "\<not> P (hd s)" and l: "\<not> P (last s)"
  from s h have "dropWhile P s = s"
    by (cases s) simp_all
  moreover from s l have "dropWhile P (rev s) = rev s"
    by (cases "rev s") (simp_all add: last_rev [symmetric] hd_rev)
  ultimately show ?thesis by simp
qed

lemma unsigned_decimal_chars:
  assumes "unsigned_decimal s = Some v"
  shows "s \<noteq> []" and "decimal_chars s"
proof -
  have sets: "set s = set (takeWhile is_digit s) \<union> set (dropWhile is_digit s)"
    by (metis set_append takeWhile_dropWhile_id)
  have tw: "\<forall>c \<in> set (takeWhile is_digit s). is_digit c"
    by (auto dest: set_takeWhileD)
  show "s \<noteq> []"
    using assms by (auto simp: unsigned_decimal_def)
  have "\<forall>c \<in> set (dropWhile is_digit s). is_digit c \<or> c = CHR ''.''"
  proof (cases "dropWhile is_digit s")
    case Nil
    show ?thesis unfolding Nil by simp
  next
    case (Cons c fp)
    with assms have "c = CHR ''.''" and "list_all is_digit fp"
      by (auto simp: unsigned_decimal_def Let_def split: if_splits)
    with Cons show ?thesis
      by (auto simp: list_all_iff)
  qed
  with tw sets show "decimal_chars s"
    by (auto simp: decimal_chars_def list_all_iff)
qed

lemma decimal_char_facts:
  assumes "is_digit c \<or> c = CHR ''.''"
  shows "c \<noteq> CHR ''(''" "c \<noteq> CHR '')''" "c \<noteq> CHR ''-''" "c \<noteq> CHR ''+''" "c \<noteq> CHR '',''"
    "\<not> is_space c"
  using assms by (auto simp: is_digit_def is_space_def)


lemma decimal_chars_mem: "decimal_chars s \<Longrightarrow> c \<in> set s \<Longrightarrow> is_digit c \<or> c = CHR ''.''"
  by (simp add: decimal_chars_def list_all_iff)

lemma decimal_hd_last:
  assumes "s \<noteq> []" and "decimal_chars s"
  shows "is_digit (hd s) \<or> hd s = CHR ''.''" and "is_digit (last s) \<or> last s = CHR ''.''"
proof -
  from assms(1) have "hd s \<in> set s" and "last s \<in> set s"
    by simp_all
  then show "is_digit (hd s) \<or> hd s = CHR ''.''" and "is_digit (last s) \<or> last s = CHR ''.''"
    using assms(2) by (blast dest: decimal_chars_mem)+
qed

lemma decimal_no_specials:
  assumes "decimal_chars s"
  shows "CHR ''('' \<notin> set s" and "CHR '')'' \<notin> set s" and "CHR '','' \<notin> set s"
proof -
  show "CHR ''('' \<notin> set s"
    using decimal_chars_mem [OF assms, of "CHR ''(''"] decimal_char_facts(1) [of "CHR ''(''"]
    by blast
  show "CHR '')'' \<notin> set s"
    using decimal_chars_mem [OF assms, of "CHR '')''"] decimal_char_facts(2) [of "CHR '')''"]
    by blast
  show "CHR '','' \<notin> set s"
    using decimal_chars_mem [OF assms, of "CHR '',''"] decimal_char_facts(5) [of "CHR '',''"]
    by blast
qed

lemma py_strip_decimal:
  assumes "s \<noteq> []" and "decimal_chars s"
  shows "py_strip s = s" and "py_strip (CHR ''-'' # s) = CHR ''-'' # s"
proof -
  have h: "\<not> is_space (hd s)" and l: "\<not> is_space (last s)"
    using decimal_hd_last [OF assms] decimal_char_facts(6) by blast+
  show "py_strip s = s"
    unfolding py_strip_def using assms(1) h l by (rule strip_both_id)
  have "\<not> is_space (CHR ''-'')"
    by (simp add: is_space_def)
  moreover have "last (CHR ''-'' # s) = last s"
    using assms(1) by simp
  ultimately show "py_strip (CHR ''-'' # s) = CHR ''-'' # s"
    unfolding py_strip_def using l by (intro strip_both_id) simp_all
qed

lemma strip_parens_decimal:
  assumes "s \<noteq> []" and "decimal_chars s"
  shows "strip_chars ''()'' (CHR ''('' # s @ '')'') = s"
proof -
  have h: "hd s \<notin> set ''()''" and l: "last s \<notin> set ''()''"
    using decimal_hd_last [OF assms] decimal_char_facts(1,2) by auto
  have d1: "dropWhile (\<lambda>c. c \<in> set ''()'') (CHR ''('' # s @ '')'') = s @ '')''"
    using assms(1) h by (cases s) simp_all
  have "rev (s @ '')'') = CHR '')'' # rev s"
    by simp
  moreover have "dropWhile (\<lambda>c. c \<in> set ''()'') (rev s) = rev s"
    using assms(1) l by (cases "rev s") (simp_all add: last_rev [symmetric] hd_rev)
  ultimately have "dropWhile (\<lambda>c. c \<in> set ''()'') (rev (s @ '')'')) = rev s"
    by simp
  with d1 show ?thesis
    by (simp add: strip_chars_def)
qed

lemma float_decimal_unsigned:
  assumes "unsigned_decimal s = Some v"
  shows "float_decimal s = Some v" and "float_decimal (CHR ''-'' # s) = Some (- v)"
proof -
  note c = unsigned_decimal_chars [OF assms]
  from c obtain x xs where s: "s = x # xs"
    by (cases s) auto
  with decimal_hd_last(1) [OF c] decimal_char_facts(3,4) have x: "x \<noteq> CHR ''-''" "x \<noteq> CHR ''+''"
    by auto
  have "float_decimal s =
      (case s of
         [] \<Rightarrow> None
       | c # cs \<Rightarrow>
           (if c = CHR ''-'' then map_option uminus (unsigned_decimal cs)
            else if c = CHR ''+'' then unsigned_decimal cs
            else unsigned_decimal (c # cs)))"
    by (simp only: float_decimal_def py_strip_decimal(1) [OF c])
  also have "\<dots> = unsigned_decimal s"
    using x by (simp add: s)
  finally show "float_decimal s = Some v"
    using assms by simp
  have "float_decimal (CHR ''-'' # s) = map_option uminus (unsigned_decimal s)"
    by (simp add: float_decimal_def py_strip_decimal(2) [OF c])
  then show "float_decimal (CHR ''-'' # s) = Some (- v)"
    using assms by simp
qed

lemma remove_commas_idem: "remove_commas (remove_commas s) = remove_commas s"
  by (simp add: remove_commas_def)

lemma remove_commas_parens:
  "remove_commas (CHR ''('' # n @ '')'') = CHR ''('' # remove_commas n @ '')''"
  by (simp add: remove_commas_def)

lemma parse_amount_magnitude:
  assumes "unsigned_decimal (remove_commas n) = Some v"
  shows "parse_amount ascii_lib n = Some v"
    and "parse_amount ascii_lib (CHR ''('' # n @ '')'') = Some (- v)"
proof -
  let ?s = "remove_commas n"
  note c = unsigned_decimal_chars [OF assms]
  note sp = decimal_no_specials [OF c(2)]
  from c obtain x xs where s: "?s = x # xs"
    by (cases ?s) auto
  with decimal_hd_last(1) [OF c] decimal_char_facts(3) have "x \<noteq> CHR ''-''"
    by auto
  with s have nd: "?s \<noteq> ''-''"
    by auto
  show "parse_amount ascii_lib n = Some v"
    using sp nd c(1) float_decimal_unsigned(1) [OF assms]
    by (simp add: parse_amount_def Let_def py_strip_decimal(1) [OF c] ascii_lib_def)
  show "parse_amount ascii_lib (CHR ''('' # n @ '')'') = Some (- v)"
    using c(1) float_decimal_unsigned(2) [OF assms]
    by (simp add: parse_amount_def Let_def remove_commas_parens strip_parens_decimal [OF c]
        py_strip_decimal(2) [OF c] ascii_lib_def)
qed

lemma ex_unsigned_decimal: "unsigned_decimal (remove_commas ''1,234'') = Some 1234"
  by (simp add: unsigned_decimal_def remove_commas_def is_digit_def digits_val_def digit_val_def)

subsection \<open>The derived fourth quarter\<close>

text \<open>
  Claim C1. When the annual entry \<open>Q4\<close> is present in the map of quarters, the derived
  fourth-quarter map is defined exactly on the union of the keys of the annual map and
  of the Q1, Q2 and Q3 maps, and at each such key its value is the annual value minus
  the sum of the Q1, Q2 and Q3 values, where an absent quarter and a missing key count
  as 0. When Q1, Q2 and Q3 are all absent, the derived map is the annual map itself.
\<close>

theorem derive_q4_annual_minus_sum3:
  assumes "fmlookup cur ''Q4'' = Some annual"
  shows "fmlookup (derive_q4 cur) k =
           (if k \<in> quarter_keys cur ''Q4'' \<union> quarter_keys cur ''Q1'' \<union> quarter_keys cur ''Q2''
                   \<union> quarter_keys cur ''Q3''
            then Some (present cur ''Q4'' k
                       - (present cur ''Q1'' k + present cur ''Q2'' k + present cur ''Q3'' k))
            else None)
         \<and> (fmlookup cur ''Q1'' = None \<and> fmlookup cur ''Q2'' = None \<and> fmlookup cur ''Q3'' = None
            \<longrightarrow> derive_q4 cur = annual)"
proof
  have keys: "quarter_keys cur ''Q4'' = fmdom' annual"
    using assms by (simp add: quarter_keys_def)
  have val: "get_or0 annual k = present cur ''Q4'' k"
    using assms by (simp add: present_def get_or0_eq)
  show "fmlookup (derive_q4 cur) k =
           (if k \<in> quarter_keys cur ''Q4'' \<union> quarter_keys cur ''Q1'' \<union> quarter_keys cur ''Q2''
                   \<union> quarter_keys cur ''Q3''
            then Some (present cur ''Q4'' k
                       - (present cur ''Q1'' k + present cur ''Q2'' k + present cur ''Q3'' k))
            else None)"
    using assms
    by (simp add: derive_q4_def Let_def fmlookup_sub_dict get_or0_add_dicts fmdom'_add_dicts
        keys val get_quarter_present get_quarter_keys)
next
  show "fmlookup cur ''Q1'' = None \<and> fmlookup cur ''Q2'' = None \<and> fmlookup cur ''Q3'' = None
          \<longrightarrow> derive_q4 cur = annual"
    using assms
    by (simp add: derive_q4_def Let_def get_quarter_def add_dicts_empty sub_dict_empty)
qed

theorem derive_q4_annual_minus_sum3_witness:
  "fmlookup ex_quarters ''Q4'' = Some (fmap_of_list [(key_revenue, 100)])
   \<and> fmlookup (derive_q4 ex_quarters) key_revenue = Some 25"
proof -
  have h: "fmlookup ex_quarters ''Q4'' = Some (fmap_of_list [(key_revenue, 100)])"
    by (simp add: ex_quarters_def)
  show ?thesis
    using h derive_q4_annual_minus_sum3 [OF h, of key_revenue]
    by (simp add: ex_quarters_def quarter_keys_def present_def)
qed

subsection \<open>Ratios and scaled amounts of a display row\<close>

text \<open>
  Claim C6. In the row built from an amount map, each of the four ratio fields
  (operating margin, gross margin, net margin, cost ratio) is present exactly when the
  revenue is not zero and the numerator key is in the map, and then it is
  numerator / revenue * 100. With revenue zero or absent all four are omitted,
  whatever the numerators are.
\<close>

theorem ratio_present_iff_revenue_nonzero:
  "(\<forall>(key, field) \<in> set ratio_fields.
      fmlookup (build_display_row c y l raw rn) field =
        (if amount raw key_revenue \<noteq> 0 \<and> key |\<in>| fmdom raw
         then Some (PFloat (amount raw key / amount raw key_revenue * 100)) else None))
   \<and> (amount raw key_revenue = 0 \<longrightarrow>
        (\<forall>(key, field) \<in> set ratio_fields.
           fmlookup (build_display_row c y l raw rn) field = None))"
proof -
  have each: "\<And>key field. (key, field) \<in> set ratio_fields \<Longrightarrow>
      fmlookup (build_display_row c y l raw rn) field =
        (if amount raw key_revenue \<noteq> 0 \<and> key |\<in>| fmdom raw
         then Some (PFloat (amount raw key / amount raw key_revenue * 100)) else None)"
    by (rule row_ratio)
  show ?thesis
  proof (intro conjI impI ballI)
    fix p assume p: "p \<in> set ratio_fields"
    obtain key field where "p = (key, field)"
      by (cases p)
    with p each [of key field] show "case p of (key, field) \<Rightarrow>
        fmlookup (build_display_row c y l raw rn) field =
          (if amount raw key_revenue \<noteq> 0 \<and> key |\<in>| fmdom raw
           then Some (PFloat (amount raw key / amount raw key_revenue * 100)) else None)"
      by simp
  next
    fix p assume zero: "amount raw key_revenue = 0" and p: "p \<in> set ratio_fields"
    obtain key field where "p = (key, field)"
      by (cases p)
    with p zero each [of key field] show "case p of (key, field) \<Rightarrow>
        fmlookup (build_display_row c y l raw rn) field = None"
      by simp
  qed
qed

theorem ratio_present_iff_revenue_nonzero_witness:
  "fmlookup (build_display_row ''SK'' 2024 ''2024Q1'' ex_no_revenue None) col_gross_margin = None
   \<and> fmlookup (build_display_row ''SK'' 2024 ''2024Q1'' ex_revenue None) col_gross_margin
       = Some (PFloat 25)
   \<and> fmlookup (build_display_row ''SK'' 2024 ''2024Q1'' ex_revenue None) col_net_margin = None"
  using ratio_present_iff_revenue_nonzero [of "''SK''" 2024 "''2024Q1''" ex_no_revenue None]
    ratio_present_iff_revenue_nonzero [of "''SK''" 2024 "''2024Q1''" ex_revenue None]
  by (simp add: ratio_fields_def amount_def ex_no_revenue_def ex_revenue_def key_defs)

text \<open>
  Claim C7. In the row built from an amount map, each scaled-amount field is present
  exactly when the value of its source key is not zero (a value of 0, like an absent
  key, omits the field); revenue, cost of sales and gross profit are divided by
  \<open>10^12\<close>, operating profit, net income and SG&A by \<open>10^8\<close>. The value keeps its
  sign: a derived fourth-quarter operating profit of -50 is shown as \<open>-50 / 10^8\<close>.
\<close>

theorem scaled_present_iff_nonzero:
  "\<forall>(key, field, divisor) \<in> set scaled_fields.
     fmlookup (build_display_row c y l raw rn) field =
       (if amount raw key \<noteq> 0 then Some (PFloat (amount raw key / divisor)) else None)"
proof (rule ballI)
  fix p assume p: "p \<in> set scaled_fields"
  obtain key field divisor where "p = (key, field, divisor)"
    by (cases p)
  with p show "case p of (key, field, divisor) \<Rightarrow>
      fmlookup (build_display_row c y l raw rn) field =
        (if amount raw key \<noteq> 0 then Some (PFloat (amount raw key / divisor)) else None)"
    using row_scaled [of key field divisor c y l raw rn] by simp
qed

theorem scaled_present_iff_nonzero_witness:
  "fmlookup (derive_q4 ex_loss) key_operating_profit = Some (- 50)
   \<and> fmlookup (build_display_row ''SK'' 2024 ''2024Q4'' (derive_q4 ex_loss) (Some name_q4))
         col_operating_profit_100m = Some (PFloat (- 50 / 10 ^ 8))
   \<and> fmlookup (build_display_row ''SK'' 2024 ''2024Q4'' (derive_q4 ex_loss) (Some name_q4))
         col_revenue_tn = None
   \<and> fmlookup (build_display_row ''SK'' 2024 ''2024Q1'' ex_no_revenue None) col_revenue_tn = None
   \<and> fmlookup (build_display_row ''SK'' 2024 ''2024Q1'' ex_revenue None) col_revenue_tn
       = Some (PFloat (200 / 10 ^ 12))"
proof -
  have q4: "fmlookup (derive_q4 ex_loss) k =
      (if k = key_operating_profit then Some (- 50) else None)" for k
    by (simp add: derive_q4_def Let_def get_quarter_def ex_loss_def fmlookup_sub_dict
        fmdom'_add_dicts get_or0_add_dicts get_or0_fmupd)
  show ?thesis
    using scaled_present_iff_nonzero
        [of "''SK''" 2024 "''2024Q4''" "derive_q4 ex_loss" "Some name_q4"]
      scaled_present_iff_nonzero [of "''SK''" 2024 "''2024Q1''" ex_no_revenue None]
      scaled_present_iff_nonzero [of "''SK''" 2024 "''2024Q1''" ex_revenue None]
    by (simp add: scaled_fields_def amount_def q4 ex_no_revenue_def ex_revenue_def key_defs)
qed

subsection \<open>The collected table\<close>

text \<open>
  Claim C8. When the company cannot be resolved (no code, or an empty one), and when it
  is resolved but each of the four report codes is answered with an empty record, the
  routine returns the empty table; it does not raise.
\<close>

theorem collect_empty_table_when_no_data:
  "(get_corp_code_enhanced dart cn = None \<or> get_corp_code_enhanced dart cn = Some []
      \<longrightarrow> collect_quarterly_data L dart cn y = Inr [])
   \<and> (get_corp_code_enhanced dart cn = Some corp
        \<and> list_all (\<lambda>(q, code). df_empty (get_financial_statement dart corp (str_int y) code))
             report_codes
      \<longrightarrow> collect_quarterly_data L dart cn y = Inr [])"
proof (intro conjI impI)
  assume "get_corp_code_enhanced dart cn = None \<or> get_corp_code_enhanced dart cn = Some []"
  then show "collect_quarterly_data L dart cn y = Inr []"
    by (auto simp: collect_quarterly_data_def)
next
  assume a: "get_corp_code_enhanced dart cn = Some corp
        \<and> list_all (\<lambda>(q, code). df_empty (get_financial_statement dart corp (str_int y) code))
             report_codes"
  then have "collect_raw L (get_financial_statement dart corp (str_int y)) report_codes
               (fmempty, fmempty) = Inr (fmempty, fmempty)"
    by (intro collect_raw_all_empty) simp
  with a show "collect_quarterly_data L dart cn y = Inr []"
    by (simp add: collect_quarterly_data_def)
qed

theorem collect_empty_table_when_no_data_witness:
  "get_corp_code_enhanced ex_dart_unknown ''SK'' = None
   \<and> collect_quarterly_data ascii_lib ex_dart_unknown ''SK'' 2024 = Inr []
   \<and> get_corp_code_enhanced ex_dart_no_data ''SK'' = Some ''00126380''
   \<and> list_all (\<lambda>(q, code). df_empty (get_financial_statement ex_dart_no_data ''00126380''
                  (str_int 2024) code)) report_codes
   \<and> collect_quarterly_data ascii_lib ex_dart_no_data ''SK'' 2024 = Inr []"
proof -
  have u: "get_corp_code_enhanced ex_dart_unknown ''SK'' = None"
    by (simp add: ex_dart_unknown_def)
  have r: "get_corp_code_enhanced ex_dart_no_data ''SK'' = Some ''00126380''"
    by (simp add: ex_dart_no_data_def)
  have e: "list_all (\<lambda>(q, code). df_empty (get_financial_statement ex_dart_no_data ''00126380''
                  (str_int 2024) code)) report_codes"
    by (simp add: ex_dart_no_data_def report_codes_def)
  show ?thesis
    using u r e
      collect_empty_table_when_no_data [of ex_dart_unknown "''SK''" ascii_lib 2024 "''x''"]
      collect_empty_table_when_no_data [of ex_dart_no_data "''SK''" ascii_lib 2024 "''00126380''"]
    by simp
qed

text \<open>
  Claim C2. Without the annual entry there is no derived fourth quarter: the derived map
  is the empty dict, not a map of zeros; and when the annual record is not fetched
  (its fetch is empty, or the company is not resolved), no row of a returned table
  carries the fourth-quarter label, whichever of Q1, Q2, Q3 were fetched.
\<close>

theorem no_q4_without_annual:
  "(fmlookup cur ''Q4'' = None \<longrightarrow> derive_q4 cur = fmempty)
   \<and> (df_empty (fetched dart cn y ''11011'') \<and> collect_quarterly_data L dart cn y = Inr table
      \<longrightarrow> filter (has_label (str_int y @ ''Q4'')) table = [])"
proof (intro conjI impI)
  assume "fmlookup cur ''Q4'' = None"
  then show "derive_q4 cur = fmempty"
    by (simp add: derive_q4_def)
next
  assume a: "df_empty (fetched dart cn y ''11011'') \<and> collect_quarterly_data L dart cn y = Inr table"
  then obtain cur' cum' where
    table: "table = make_rows cn y cur' cum'" and
    look: "\<And>q. fmlookup cur' q =
             (case map_of report_codes q of
                None \<Rightarrow> None
              | Some code \<Rightarrow> current_amounts L (fetched dart cn y code))"
    using collect_make_rows [of L dart cn y table] by blast
  have "fmlookup cur' ''Q4'' = None"
    using a look [of "''Q4''"] by (simp add: report_codes_def current_amounts_def)
  then have "derive_q4 cur' = fmempty"
    by (simp add: derive_q4_def)
  then show "filter (has_label (str_int y @ ''Q4'')) table = []"
    by (simp add: table filter_label_make_rows_q4 row_if_def)
qed

theorem no_q4_without_annual_witness:
  "fmlookup (fmap_of_list [(''Q1'', ex_amounts_q1)]) ''Q4'' = None
   \<and> derive_q4 (fmap_of_list [(''Q1'', ex_amounts_q1)]) = fmempty
   \<and> df_empty (fetched ex_dart_q1 ''SK'' 2024 ''11011'')
   \<and> collect_quarterly_data ascii_lib ex_dart_q1 ''SK'' 2024
       = Inr [build_display_row ''SK'' 2024 ''2024Q1'' ex_amounts_q1 (Some name_q1)]
   \<and> filter (has_label (str_int 2024 @ ''Q4''))
        [build_display_row ''SK'' 2024 ''2024Q1'' ex_amounts_q1 (Some name_q1)] = []"
proof -
  have n: "fmlookup (fmap_of_list [(''Q1'', ex_amounts_q1)]) ''Q4'' = None"
    by simp
  have e: "df_empty (fetched ex_dart_q1 ''SK'' 2024 ''11011'')"
    by (simp add: fetched_def ex_dart_q1_def)
  have c: "collect_quarterly_data ascii_lib ex_dart_q1 ''SK'' 2024
       = Inr [build_display_row ''SK'' 2024 ''2024Q1'' ex_amounts_q1 (Some name_q1)]"
    by (rule ex_collect_q1)
  show ?thesis
    using n e c
      no_q4_without_annual [of "fmap_of_list [(''Q1'', ex_amounts_q1)]" ex_dart_q1 "''SK''" 2024
        ascii_lib "[build_display_row ''SK'' 2024 ''2024Q1'' ex_amounts_q1 (Some name_q1)]"]
    by simp
qed

text \<open>
  Claim C3. In a returned table, the row of each of Q1, Q2 and Q3 is the display row of
  the amount map extracted from the current-period column of that quarter's record,
  as extracted: nothing is subtracted from it or added to it. A quarter whose fetch is
  empty has no row.
\<close>

theorem direct_quarters_pass_through:
  assumes "collect_quarterly_data L dart cn y = Inr table"
    and "(q, code, name) \<in> set direct_quarters"
  shows "(df_empty (fetched dart cn y code)
            \<longrightarrow> filter (has_label (str_int y @ q)) table = [])
         \<and> (\<not> df_empty (fetched dart cn y code)
            \<longrightarrow> (\<exists>c. extract_raw_amounts L (fetched dart cn y code) ''thstrm_amount'' = Inr c
                  \<and> filter (has_label (str_int y @ q)) table =
                      [build_display_row cn y (str_int y @ q) c (Some name)]))"
proof -
  from assms(1) obtain cur cum where
    table: "table = make_rows cn y cur cum" and
    look: "\<And>q. fmlookup cur q =
             (case map_of report_codes q of
                None \<Rightarrow> None
              | Some code \<Rightarrow> current_amounts L (fetched dart cn y code))"
    using collect_make_rows [of L dart cn y table] by blast
  from assms(2) have sn: "(q, name) \<in> {(''Q1'', name_q1), (''Q2'', name_q2), (''Q3'', name_q3)}"
    and code: "map_of report_codes q = Some code"
    and mem: "(q, code) \<in> set report_codes"
    by (auto simp: direct_quarters_def report_codes_def)
  have rows: "filter (has_label (str_int y @ q)) table = row_if cn y q (get_quarter cur q) name"
    unfolding table using sn by (rule filter_label_make_rows)
  have cur: "fmlookup cur q = current_amounts L (fetched dart cn y code)"
    using look [of q] code by simp
  show ?thesis
  proof (intro conjI impI)
    assume "df_empty (fetched dart cn y code)"
    then have "fmlookup cur q = None"
      using cur by (simp add: current_amounts_def)
    then show "filter (has_label (str_int y @ q)) table = []"
      by (simp add: rows row_if_def get_quarter_def)
  next
    assume ne: "\<not> df_empty (fetched dart cn y code)"
    show "\<exists>c. extract_raw_amounts L (fetched dart cn y code) ''thstrm_amount'' = Inr c
            \<and> filter (has_label (str_int y @ q)) table =
                [build_display_row cn y (str_int y @ q) c (Some name)]"
    proof -
      from assms(1) mem ne obtain c where some: "current_amounts L (fetched dart cn y code) = Some c"
        using collect_current by blast
      then have ex: "extract_raw_amounts L (fetched dart cn y code) ''thstrm_amount'' = Inr c"
        and nonempty: "c \<noteq> fmempty"
        by (simp_all add: current_amounts_Some current_amounts_nonempty)
      have "filter (has_label (str_int y @ q)) table =
              [build_display_row cn y (str_int y @ q) c (Some name)]"
        using cur some nonempty by (simp add: rows row_if_def get_quarter_def)
      with ex show ?thesis by blast
    qed
  qed
qed

theorem direct_quarters_pass_through_witness:
  "collect_quarterly_data ascii_lib ex_dart_q1 ''SK'' 2024
       = Inr [build_display_row ''SK'' 2024 ''2024Q1'' ex_amounts_q1 (Some name_q1)]
   \<and> (''Q1'', ''11013'', name_q1) \<in> set direct_quarters
   \<and> \<not> df_empty (fetched ex_dart_q1 ''SK'' 2024 ''11013'')
   \<and> extract_raw_amounts ascii_lib (fetched ex_dart_q1 ''SK'' 2024 ''11013'') ''thstrm_amount''
       = Inr ex_amounts_q1
   \<and> filter (has_label (str_int 2024 @ ''Q1''))
        [build_display_row ''SK'' 2024 ''2024Q1'' ex_amounts_q1 (Some name_q1)]
       = [build_display_row ''SK'' 2024 (str_int 2024 @ ''Q1'') ex_amounts_q1 (Some name_q1)]"
proof -
  have c: "collect_quarterly_data ascii_lib ex_dart_q1 ''SK'' 2024
       = Inr [build_display_row ''SK'' 2024 ''2024Q1'' ex_amounts_q1 (Some name_q1)]"
    by (rule ex_collect_q1)
  have m: "(''Q1'', ''11013'', name_q1) \<in> set direct_quarters"
    by (simp add: direct_quarters_def)
  have f: "fetched ex_dart_q1 ''SK'' 2024 ''11013'' = ex_df_q1"
    by (simp add: fetched_def ex_dart_q1_def)
  have ne: "\<not> df_empty ex_df_q1"
    by (simp add: df_empty_def ex_df_q1_def)
  have x: "extract_raw_amounts ascii_lib ex_df_q1 ''thstrm_amount'' = Inr ex_amounts_q1"
    by (rule ex_extract_q1)
  show ?thesis
    using c m f ne x direct_quarters_pass_through [OF c m]
    by simp
qed




subsection \<open>Extraction of the amounts\<close>





text \<open>
  Claim C4. The numeric parsing of an amount text: commas are removed before anything
  else, so a text and the same text without its thousands separators parse alike; the
  texts \<^verbatim>\<open>-\<close> and the empty text give 0; a plain decimal magnitude \<open>N\<close> (digits,
  optional separators, optional fraction) gives its value, and the same magnitude in
  parentheses gives the negated value, so \<^verbatim>\<open>(1,234)\<close> gives -1234; and the value
  parsed from the first row that matches a synonym is the amount found for the key.
\<close>

theorem amount_text_parsing:
  "parse_amount L raw = parse_amount L (remove_commas raw)
   \<and> parse_amount L ''-'' = Some 0
   \<and> parse_amount L '''' = Some 0
   \<and> (unsigned_decimal (remove_commas n) = Some v
      \<longrightarrow> parse_amount ascii_lib n = Some v
          \<and> parse_amount ascii_lib (''('' @ n @ '')'') = Some (- v))
   \<and> parse_amount ascii_lib ''(1,234)'' = Some (- 1234)
   \<and> (''account_nm'' \<in> set (columns df) \<and> matching_rows L df kw = r # rs
        \<and> parse_amount L (cell_text df r column) = Some a
      \<longrightarrow> find_amount L df column (kw # kws) = Inr a)"
proof (intro conjI impI)
  show "parse_amount L raw = parse_amount L (remove_commas raw)"
    by (simp add: parse_amount_def remove_commas_idem)
  show "parse_amount L ''-'' = Some 0"
    by (simp add: parse_amount_def remove_commas_def py_strip_def is_space_def)
  show "parse_amount L '''' = Some 0"
    by (simp add: parse_amount_def remove_commas_def py_strip_def)
  show "parse_amount ascii_lib ''(1,234)'' = Some (- 1234)"
    using parse_amount_magnitude(2) [OF ex_unsigned_decimal] by simp
next
  assume u: "unsigned_decimal (remove_commas n) = Some v"
  show "parse_amount ascii_lib n = Some v"
    using u by (rule parse_amount_magnitude(1))
  show "parse_amount ascii_lib (''('' @ n @ '')'') = Some (- v)"
    using parse_amount_magnitude(2) [OF u] by simp
next
  assume "''account_nm'' \<in> set (columns df) \<and> matching_rows L df kw = r # rs
        \<and> parse_amount L (cell_text df r column) = Some a"
  then show "find_amount L df column (kw # kws) = Inr a"
    by (simp add: find_amount_hit)
qed

theorem amount_text_parsing_witness:
  "unsigned_decimal (remove_commas ''1,234'') = Some 1234
   \<and> parse_amount ascii_lib ''1,234'' = Some 1234
   \<and> parse_amount ascii_lib (''('' @ ''1,234'' @ '')'') = Some (- 1234)
   \<and> parse_amount ascii_lib ''1,234'' = parse_amount ascii_lib (remove_commas ''1,234'')"
proof -
  note t = amount_text_parsing [of ascii_lib "''1,234''" "''1,234''" 1234 ex_df_q1 "''revenue''"
      "(\<lambda>_. NaN)" "[]" "''thstrm_amount''" 0 "[]"]
  from t ex_unsigned_decimal have a: "parse_amount ascii_lib ''1,234'' = Some 1234"
    by blast
  from t ex_unsigned_decimal have
    b: "parse_amount ascii_lib (''('' @ ''1,234'' @ '')'') = Some (- 1234)"
    by blast
  from t have c: "parse_amount ascii_lib ''1,234'' = parse_amount ascii_lib (remove_commas ''1,234'')"
    by blast
  from ex_unsigned_decimal a b c show ?thesis
    by (intro conjI)
qed

end
